theory Spec2Isabelle
  imports Main
begin

text \<open>
  A model of sunapi-node, a client library for the HTTP control interface of surveillance
  devices: the session handling and request pipeline of \<open>SunapiClient\<close>, the error
  classifier, the aggregate \<open>Sunapi\<close> client and the condition normalizer of the event
  module, with the properties its specification states about them. Asynchronous methods
  are functions of the client state and of the world (device, network and clock); a
  thrown error is \<open>Inl\<close>, a returned value \<open>Inr\<close>.
\<close>

section \<open>Data model (types.ts)\<close>

text \<open>
  The device answers with JSON. The client core reads a handful of fields of a response
  body (\<open>data.status\<close>, \<open>data.token\<close>, \<open>data.sessionId\<close>, \<open>data.expires\<close>,
  \<open>data.message\<close>, \<open>data.userLevel\<close>, \<open>data.maxSessions\<close>); every one of them may be
  missing (\<open>undefined\<close> in the source, \<open>None\<close> here). Fields that are present have the
  type the interfaces of types.ts give them: strings are strings, \<open>expires\<close> and
  \<open>maxSessions\<close> are integers. Whatever else the body carries is the opaque \<open>d_rest\<close>.
  A body that is \<open>null\<close> is \<open>None :: 'p body option\<close>.
\<close>

record 'p body =
  d_status :: "string option"
  d_token :: "string option"
  d_sessionId :: "string option"
  d_expires :: "int option"
  d_message :: "string option"
  d_userLevel :: "string option"
  d_maxSessions :: "int option"
  d_rest :: 'p

text \<open>JavaScript truthiness of an optional string and of an optional number, and \<open>a || b\<close>.\<close>

definition truthy_str :: "string option \<Rightarrow> bool" where
  "truthy_str v = (case v of None \<Rightarrow> False | Some s \<Rightarrow> s \<noteq> [])"

definition truthy_num :: "int option \<Rightarrow> bool" where
  "truthy_num v = (case v of None \<Rightarrow> False | Some n \<Rightarrow> n \<noteq> 0)"

definition or_str :: "string option \<Rightarrow> string option \<Rightarrow> string option" where
  "or_str a b = (if truthy_str a then a else b)"

definition or_num :: "int option \<Rightarrow> int \<Rightarrow> int" where
  "or_num a b = (case a of None \<Rightarrow> b | Some n \<Rightarrow> if n \<noteq> 0 then n else b)"

text \<open>\<open>interface SunapiConfig\<close>, after the constructor has filled in its defaults.\<close>

record SunapiConfig =
  host :: string
  port :: nat
  username :: string
  password :: string
  protocol :: string
  timeout :: nat
  retries :: nat

text \<open>\<open>interface SunapiResponse<T>\<close>: the result envelope. An absent field is \<open>None\<close>.\<close>

record 'a SunapiResponse =
  success :: bool
  data :: "'a option"
  error :: "string option"
  statusCode :: "nat option"

text \<open>
  A \<open>Date\<close> is a time value, a whole number of milliseconds since the epoch of at most
  8.64e15 in magnitude, or it is an Invalid Date. \<open>new Date(v)\<close> clips: a number beyond
  that range gives an Invalid Date. The numbers of the source are doubles; \<open>Date.now()\<close>
  is a time value and a lifetime is a whole number, so \<open>Date.now() + lifetime * 1000\<close> is
  exact wherever it is within the range of \<open>Date\<close>, and is outside that range (rounded
  or not) wherever the exact sum is. Comparing an Invalid Date with anything is false.
\<close>

datatype date = Date int | InvalidDate

definition new_Date :: "int \<Rightarrow> date" where
  "new_Date v = (if \<bar>v\<bar> \<le> 8640000000000000 then Date v else InvalidDate)"

text \<open>\<open>d > new Date()\<close>, with \<open>now\<close> the current time.\<close>

definition later :: "date \<Rightarrow> int \<Rightarrow> bool" where
  "later d now = (case d of Date e \<Rightarrow> now < e | InvalidDate \<Rightarrow> False)"

text \<open>\<open>interface AuthToken\<close>. The token itself is \<open>data.token || data.sessionId\<close> and so
  may be \<open>undefined\<close>.\<close>

record AuthToken =
  token :: "string option"
  expiresAt :: date
  t_sessionId :: "string option"

record LoginResponse =
  l_token :: "string option"
  l_sessionId :: "string option"
  l_userLevel :: string
  l_maxSessions :: int

text \<open>The error classes of types.ts. \<open>SunapiError(message, statusCode?, response?)\<close>;
  the subclasses fix the status code: 401, 0 and 400.\<close>

datatype error_class = SunapiErrorC | AuthenticationErrorC | ConnectionErrorC | ValidationErrorC

record 'p SunapiError =
  e_class :: error_class
  e_message :: string
  e_statusCode :: "nat option"
  e_response :: "'p body option"

definition new_SunapiError :: "string \<Rightarrow> nat option \<Rightarrow> 'p body option \<Rightarrow> 'p SunapiError" where
  "new_SunapiError msg sc resp =
     \<lparr>e_class = SunapiErrorC, e_message = msg, e_statusCode = sc, e_response = resp\<rparr>"

definition new_AuthenticationError :: "string \<Rightarrow> 'p SunapiError" where
  "new_AuthenticationError msg =
     \<lparr>e_class = AuthenticationErrorC, e_message = msg, e_statusCode = Some 401, e_response = None\<rparr>"

definition new_ConnectionError :: "string \<Rightarrow> 'p SunapiError" where
  "new_ConnectionError msg =
     \<lparr>e_class = ConnectionErrorC, e_message = msg, e_statusCode = Some 0, e_response = None\<rparr>"

definition new_ValidationError :: "string \<Rightarrow> 'p SunapiError" where
  "new_ValidationError msg =
     \<lparr>e_class = ValidationErrorC, e_message = msg, e_statusCode = Some 400, e_response = None\<rparr>"

section \<open>The transport as the client sees it (axios)\<close>

text \<open>
  A call of the axios instance settles in one of two ways: it resolves with an
  \<open>AxiosResponse\<close> (\<open>status\<close>, \<open>data\<close>), or it rejects with an \<open>AxiosError\<close>, of which the
  client reads \<open>code\<close>, \<open>response\<close> and \<open>message\<close>. An answer of the device with a status
  outside 2xx arrives as a rejection whose error carries the response; a failure of the
  network arrives as a rejection without a response, with a \<open>code\<close> such as
  \<open>ECONNREFUSED\<close>.
\<close>

record 'p AxiosResponse =
  r_status :: nat
  r_data :: "'p body option"

record 'p AxiosError =
  x_code :: "string option"
  x_response :: "'p AxiosResponse option"
  x_message :: string

datatype 'p settled = Resolved "'p AxiosResponse" | Rejected "'p AxiosError"

datatype http_method = GET | POST | PUT | DELETE

text \<open>The request configuration handed to the transport. The two headers the request
  interceptor writes are fields of their own.\<close>

record request_config =
  c_method :: http_method
  c_url :: string
  c_data :: "(string \<times> string) list option"
  c_params :: "(string \<times> string) list option"
  Authorization :: "string option"
  X_Session_ID :: "string option"

section \<open>SunapiClient (client.ts)\<close>

record client =
  authToken :: "AuthToken option"
  sessionId :: "string option"

text \<open>The constructor leaves both fields undefined.\<close>

definition new_client :: client where
  "new_client = \<lparr>authToken = None, sessionId = None\<rparr>"

text \<open>Decimal rendering of a number inside a template literal.\<close>

fun show_nat :: "nat \<Rightarrow> string" where
  "show_nat n = (if n < 10 then [''0123456789'' ! n]
                 else show_nat (n div 10) @ [''0123456789'' ! (n mod 10)])"

declare show_nat.simps [simp del]

text \<open>\<open>`Bearer ${this.authToken.token}`\<close>: an undefined token renders as \<open>undefined\<close>.\<close>

definition bearer :: "string option \<Rightarrow> string" where
  "bearer t = ''Bearer '' @ (case t of None \<Rightarrow> ''undefined'' | Some s \<Rightarrow> s)"

text \<open>The request interceptor of \<open>setupInterceptors\<close>; \<open>now\<close> is \<open>new Date()\<close>.\<close>

definition request_interceptor :: "client \<Rightarrow> int \<Rightarrow> request_config \<Rightarrow> request_config" where
  "request_interceptor c now config =
     (let config1 = (case authToken c of
                       Some t \<Rightarrow> if later (expiresAt t) now
                                 then config\<lparr>Authorization := Some (bearer (token t))\<rparr>
                                 else config
                     | None \<Rightarrow> config)
      in if truthy_str (sessionId c)
         then config1\<lparr>X_Session_ID := sessionId c\<rparr>
         else config1)"

text \<open>\<open>handleError\<close>: the error classifier.\<close>

definition handleError :: "SunapiConfig \<Rightarrow> 'p AxiosError \<Rightarrow> 'p SunapiError" where
  "handleError cfg err =
     (if x_code err = Some ''ECONNREFUSED'' \<or> x_code err = Some ''ENOTFOUND''
      then new_ConnectionError (''Cannot connect to '' @ host cfg @ '':'' @ show_nat (port cfg))
      else case x_response err of
             Some resp \<Rightarrow>
               (let statusCode = r_status resp;
                    responseData = r_data resp;
                    message = (case or_str (case responseData of None \<Rightarrow> None
                                                              | Some d \<Rightarrow> d_message d)
                                            (Some (x_message err)) of
                                 Some m \<Rightarrow> m | None \<Rightarrow> x_message err)
                in if statusCode = 401 then new_AuthenticationError message
                   else new_SunapiError message (Some statusCode) responseData)
           | None \<Rightarrow> new_SunapiError (x_message err) None None)"

text \<open>\<open>isAuthenticated\<close>; \<open>now\<close> is \<open>new Date()\<close>.\<close>

definition isAuthenticated :: "client \<Rightarrow> int \<Rightarrow> bool" where
  "isAuthenticated c now =
     (case authToken c of None \<Rightarrow> False | Some t \<Rightarrow> later (expiresAt t) now)"

section \<open>The request pipeline\<close>

text \<open>
  The device and the network are the environment: a deterministic machine with a state
  \<open>'e\<close>. \<open>send\<close> is one call of the transport below the interceptors (it settles, and
  the environment moves on); \<open>clock\<close> is the time in milliseconds that \<open>new Date()\<close> and
  \<open>Date.now()\<close> read, a time value. The world a client runs in is the environment together with the
  log of the requests handed to the transport, oldest first.
\<close>

record ('e, 'p) transport =
  send :: "'e \<Rightarrow> request_config \<Rightarrow> 'p settled \<times> 'e"
  clock :: "'e \<Rightarrow> int"

record 'e world =
  env :: 'e
  sent :: "request_config list"

text \<open>What a \<open>try\<close> block can catch: a \<open>SunapiError\<close>, or anything else (which
  \<open>handleError\<close> then reads as if it were an \<open>AxiosError\<close>).\<close>

datatype 'p thrown = SunapiErr "'p SunapiError" | OtherErr "'p AxiosError"

text \<open>The body of the login call: \<open>post('/stw-cgi/system.cgi', {msubmenu, action, user, pass})\<close>.\<close>

definition login_config :: "SunapiConfig \<Rightarrow> request_config" where
  "login_config cfg =
     \<lparr>c_method = POST, c_url = ''/stw-cgi/system.cgi'',
      c_data = Some [(''msubmenu'', ''userlogin''), (''action'', ''login''),
                     (''user'', username cfg), (''pass'', password cfg)],
      c_params = None, Authorization = None, X_Session_ID = None\<rparr>"

text \<open>What \<open>login\<close> does with a resolved response, inside its \<open>try\<close>; \<open>now\<close> is
  \<open>Date.now()\<close>. Reading \<open>data.status\<close> of a \<open>null\<close> body is a \<open>TypeError\<close>.\<close>

definition login_response ::
  "client \<Rightarrow> int \<Rightarrow> 'p AxiosResponse \<Rightarrow> 'p thrown + (LoginResponse SunapiResponse \<times> client)" where
  "login_response c now response =
     (case r_data response of
        None \<Rightarrow> Inl (OtherErr \<lparr>x_code = None, x_response = None,
                               x_message = ''Cannot read properties of null (reading 'status')''\<rparr>)
      | Some d \<Rightarrow>
          if d_status d = Some ''OK''
          then (let tok = \<lparr>token = or_str (d_token d) (d_sessionId d),
                            expiresAt = new_Date (now + or_num (d_expires d) 3600 * 1000),
                            t_sessionId = d_sessionId d\<rparr>;
                    c' = c\<lparr>authToken := Some tok, sessionId := d_sessionId d\<rparr>
                in Inr (\<lparr>success = True,
                         data = Some \<lparr>l_token = token tok, l_sessionId = sessionId c',
                                      l_userLevel = (case or_str (d_userLevel d) (Some ''admin'') of
                                                       Some u \<Rightarrow> u | None \<Rightarrow> ''admin''),
                                      l_maxSessions = or_num (d_maxSessions d) 10\<rparr>,
                         error = None, statusCode = None\<rparr>, c'))
          else Inl (SunapiErr (new_AuthenticationError
                      (case or_str (d_message d) (Some ''Login failed'') of
                         Some m \<Rightarrow> m | None \<Rightarrow> ''Login failed''))))"

text \<open>The \<open>catch\<close> of \<open>login\<close>: a \<open>SunapiError\<close> is rethrown, anything else is classified.\<close>

definition login_catch :: "SunapiConfig \<Rightarrow> 'p thrown \<Rightarrow> 'p SunapiError" where
  "login_catch cfg t = (case t of SunapiErr e \<Rightarrow> e | OtherErr x \<Rightarrow> handleError cfg x)"

definition is_401 :: "'p AxiosError \<Rightarrow> bool" where
  "is_401 err = (case x_response err of None \<Rightarrow> False | Some resp \<Rightarrow> r_status resp = 401)"

text \<open>
  \<open>axios_request\<close> is one call of the axios instance, through both interceptors;
  \<open>login\<close> is the method of the client. They call each other: the response interceptor
  calls \<open>login\<close> on a 401 while a token is held and then issues the failed configuration
  again through the instance, and \<open>login\<close> posts through the same instance. Nothing in
  the source bounds this, so the model counts calls of the transport: with \<open>n\<close> calls
  allowed, \<open>None\<close> says that the call had not settled when they were used up.

  The interceptor awaits \<open>login\<close> inside its \<open>try\<close>, so whatever \<open>login\<close> throws becomes
  the \<open>AuthenticationError\<close> of the \<open>catch\<close>; the retried request is returned without
  \<open>await\<close>, so its outcome passes through unchanged.
\<close>

fun axios_request ::
    "('e, 'p) transport \<Rightarrow> SunapiConfig \<Rightarrow> nat \<Rightarrow> client \<Rightarrow> 'e world \<Rightarrow> request_config
     \<Rightarrow> (('p SunapiError + 'p AxiosResponse) \<times> client \<times> 'e world) option"
  and login ::
    "('e, 'p) transport \<Rightarrow> SunapiConfig \<Rightarrow> nat \<Rightarrow> client \<Rightarrow> 'e world
     \<Rightarrow> (('p SunapiError + LoginResponse SunapiResponse) \<times> client \<times> 'e world) option"
where
  "axios_request T cfg 0 c w config = None"
| "axios_request T cfg (Suc n) c w config =
     (let config' = request_interceptor c (clock T (env w)) config;
          w' = \<lparr>env = snd (send T (env w) config'), sent = sent w @ [config']\<rparr>
      in case fst (send T (env w) config') of
           Resolved response \<Rightarrow> Some (Inr response, c, w')
         | Rejected err \<Rightarrow>
             if is_401 err \<and> authToken c \<noteq> None
             then (case login T cfg n c w' of
                     None \<Rightarrow> None
                   | Some (Inl refreshError, c1, w1) \<Rightarrow>
                       Some (Inl (new_AuthenticationError ''Session expired and refresh failed''), c1, w1)
                   | Some (Inr ok, c1, w1) \<Rightarrow> axios_request T cfg n c1 w1 config')
             else Some (Inl (handleError cfg err), c, w'))"
| "login T cfg n c w =
     (case axios_request T cfg n c w (login_config cfg) of
        None \<Rightarrow> None
      | Some (Inl e, c1, w1) \<Rightarrow> Some (Inl (login_catch cfg (SunapiErr e)), c1, w1)
      | Some (Inr response, c1, w1) \<Rightarrow>
          (case login_response c1 (clock T (env w1)) response of
             Inl t \<Rightarrow> Some (Inl (login_catch cfg t), c1, w1)
           | Inr (result, c2) \<Rightarrow> Some (Inr result, c2, w1)))"

declare login.simps [simp del]

text \<open>\<open>logout\<close>. Without a token it returns at once; otherwise it posts the notification
  and clears the session whether the call resolved or threw.\<close>

definition logout_config :: request_config where
  "logout_config =
     \<lparr>c_method = POST, c_url = ''/stw-cgi/system.cgi'',
      c_data = Some [(''msubmenu'', ''userlogout''), (''action'', ''logout'')],
      c_params = None, Authorization = None, X_Session_ID = None\<rparr>"

definition logout ::
    "('e, 'p) transport \<Rightarrow> SunapiConfig \<Rightarrow> nat \<Rightarrow> client \<Rightarrow> 'e world
     \<Rightarrow> (('p SunapiError + unit SunapiResponse) \<times> client \<times> 'e world) option" where
  "logout T cfg n c w =
     (case authToken c of
        None \<Rightarrow> Some (Inr \<lparr>success = True, data = None, error = None, statusCode = None\<rparr>, c, w)
      | Some t \<Rightarrow>
          (case axios_request T cfg n c w logout_config of
             None \<Rightarrow> None
           | Some (Inr response, c1, w1) \<Rightarrow>
               Some (Inr \<lparr>success = True, data = None, error = None, statusCode = None\<rparr>,
                     c1\<lparr>authToken := None, sessionId := None\<rparr>, w1)
           | Some (Inl e, c1, w1) \<Rightarrow>
               Some (Inr \<lparr>success = True, data = None, error = None, statusCode = None\<rparr>,
                     c1\<lparr>authToken := None, sessionId := None\<rparr>, w1)))"

text \<open>\<open>ensureAuthenticated\<close>. \<open>login\<close> never returns an envelope with \<open>success\<close> false,
  but the check is in the source.\<close>

definition ensureAuthenticated ::
    "('e, 'p) transport \<Rightarrow> SunapiConfig \<Rightarrow> nat \<Rightarrow> client \<Rightarrow> 'e world
     \<Rightarrow> (('p SunapiError + unit) \<times> client \<times> 'e world) option" where
  "ensureAuthenticated T cfg n c w =
     (if \<not> isAuthenticated c (clock T (env w))
      then (case login T cfg n c w of
              None \<Rightarrow> None
            | Some (Inl e, c1, w1) \<Rightarrow> Some (Inl e, c1, w1)
            | Some (Inr result, c1, w1) \<Rightarrow>
                if \<not> success result
                then Some (Inl (new_AuthenticationError ''Failed to authenticate''), c1, w1)
                else Some (Inr (), c1, w1))
      else Some (Inr (), c, w))"

text \<open>The configuration each branch of the \<open>switch\<close> of \<open>request\<close> hands to the instance:
  \<open>get\<close> and \<open>delete\<close> pass no body.\<close>

definition request_config_of ::
    "http_method \<Rightarrow> string \<Rightarrow> (string \<times> string) list option \<Rightarrow> (string \<times> string) list option
     \<Rightarrow> request_config" where
  "request_config_of m endpoint dat ps =
     \<lparr>c_method = m, c_url = endpoint,
      c_data = (case m of GET \<Rightarrow> None | POST \<Rightarrow> dat | PUT \<Rightarrow> dat | DELETE \<Rightarrow> None),
      c_params = ps, Authorization = None, X_Session_ID = None\<rparr>"

text \<open>The \<open>catch\<close> of \<open>request\<close>: both branches build the same envelope, the second after
  classifying.\<close>

definition request_catch :: "SunapiConfig \<Rightarrow> 'p thrown \<Rightarrow> 'p body SunapiResponse" where
  "request_catch cfg t =
     (case t of
        SunapiErr e \<Rightarrow>
          \<lparr>success = False, data = None, error = Some (e_message e), statusCode = e_statusCode e\<rparr>
      | OtherErr x \<Rightarrow>
          (let sunapiError = handleError cfg x
           in \<lparr>success = False, data = None, error = Some (e_message sunapiError),
               statusCode = e_statusCode sunapiError\<rparr>))"

text \<open>\<open>request\<close>. A failure of \<open>ensureAuthenticated\<close> is outside the \<open>try\<close> and is thrown
  (\<open>Inl\<close>); everything after it ends in an envelope (\<open>Inr\<close>).\<close>

definition request ::
    "('e, 'p) transport \<Rightarrow> SunapiConfig \<Rightarrow> nat \<Rightarrow> client \<Rightarrow> 'e world
     \<Rightarrow> http_method \<Rightarrow> string \<Rightarrow> (string \<times> string) list option \<Rightarrow> (string \<times> string) list option
     \<Rightarrow> (('p SunapiError + 'p body SunapiResponse) \<times> client \<times> 'e world) option" where
  "request T cfg n c w m endpoint dat ps =
     (case ensureAuthenticated T cfg n c w of
        None \<Rightarrow> None
      | Some (Inl e, c1, w1) \<Rightarrow> Some (Inl e, c1, w1)
      | Some (Inr u, c1, w1) \<Rightarrow>
          (case axios_request T cfg n c1 w1 (request_config_of m endpoint dat ps) of
             None \<Rightarrow> None
           | Some (Inr response, c2, w2) \<Rightarrow>
               Some (Inr \<lparr>success = True, data = r_data response, error = None,
                          statusCode = Some (r_status response)\<rparr>, c2, w2)
           | Some (Inl e, c2, w2) \<Rightarrow> Some (Inr (request_catch cfg (SunapiErr e)), c2, w2)))"

definition get ::
    "('e, 'p) transport \<Rightarrow> SunapiConfig \<Rightarrow> nat \<Rightarrow> client \<Rightarrow> 'e world
     \<Rightarrow> string \<Rightarrow> (string \<times> string) list option
     \<Rightarrow> (('p SunapiError + 'p body SunapiResponse) \<times> client \<times> 'e world) option" where
  "get T cfg n c w endpoint ps = request T cfg n c w GET endpoint None ps"

definition post ::
    "('e, 'p) transport \<Rightarrow> SunapiConfig \<Rightarrow> nat \<Rightarrow> client \<Rightarrow> 'e world
     \<Rightarrow> string \<Rightarrow> (string \<times> string) list option \<Rightarrow> (string \<times> string) list option
     \<Rightarrow> (('p SunapiError + 'p body SunapiResponse) \<times> client \<times> 'e world) option" where
  "post T cfg n c w endpoint dat ps = request T cfg n c w POST endpoint dat ps"

definition put ::
    "('e, 'p) transport \<Rightarrow> SunapiConfig \<Rightarrow> nat \<Rightarrow> client \<Rightarrow> 'e world
     \<Rightarrow> string \<Rightarrow> (string \<times> string) list option \<Rightarrow> (string \<times> string) list option
     \<Rightarrow> (('p SunapiError + 'p body SunapiResponse) \<times> client \<times> 'e world) option" where
  "put T cfg n c w endpoint dat ps = request T cfg n c w PUT endpoint dat ps"

definition delete ::
    "('e, 'p) transport \<Rightarrow> SunapiConfig \<Rightarrow> nat \<Rightarrow> client \<Rightarrow> 'e world
     \<Rightarrow> string \<Rightarrow> (string \<times> string) list option
     \<Rightarrow> (('p SunapiError + 'p body SunapiResponse) \<times> client \<times> 'e world) option" where
  "delete T cfg n c w endpoint ps = request T cfg n c w DELETE endpoint None ps"

text \<open>\<open>ping\<close>, the health check: straight through the instance, without
  \<open>ensureAuthenticated\<close>. Its data is \<open>{ alive: boolean }\<close>.\<close>

record alive_data =
  alive :: bool

definition ping_config :: request_config where
  "ping_config =
     \<lparr>c_method = GET, c_url = ''/stw-cgi/system.cgi?msubmenu=deviceinfo&action=view'',
      c_data = None, c_params = None, Authorization = None, X_Session_ID = None\<rparr>"

definition ping ::
    "('e, 'p) transport \<Rightarrow> SunapiConfig \<Rightarrow> nat \<Rightarrow> client \<Rightarrow> 'e world
     \<Rightarrow> (('p SunapiError + alive_data SunapiResponse) \<times> client \<times> 'e world) option" where
  "ping T cfg n c w =
     (case axios_request T cfg n c w ping_config of
        None \<Rightarrow> None
      | Some (Inr response, c1, w1) \<Rightarrow>
          Some (Inr \<lparr>success = True, data = Some \<lparr>alive = True\<rparr>, error = None,
                     statusCode = Some (r_status response)\<rparr>, c1, w1)
      | Some (Inl e, c1, w1) \<Rightarrow>
          Some (Inr \<lparr>success = False, data = Some \<lparr>alive = False\<rparr>,
                     error = Some ''Device unreachable'', statusCode = None\<rparr>, c1, w1))"

section \<open>Feature modules\<close>

text \<open>
  Every feature module extends \<open>SunapiClient\<close>. Its writing operations return what
  \<open>post\<close> returns. Its reading operations (\<open>getDeviceInfo\<close>, \<open>getEventRule\<close>,
  \<open>getVideoChannel\<close>, ...) all have one shape:
  \<^verbatim>\<open>
  const response = await this.get<any>(endpoint, params);
  if (response.success && response.data) {
    return { success: true, data: parse(response.data), statusCode: response.statusCode };
  }
  return response;
  \<close>
  \<open>parsed_response\<close> is the part after the \<open>await\<close>; the normalizer \<open>parse\<close> and the
  truthiness of the payload are parameters, and \<open>parse\<close> may throw.
\<close>

definition parsed_response ::
    "('a \<Rightarrow> bool) \<Rightarrow> ('a \<Rightarrow> 'x + 'a) \<Rightarrow> 'a SunapiResponse \<Rightarrow> 'x + 'a SunapiResponse" where
  "parsed_response truthy parse response =
     (case data response of
        Some d \<Rightarrow>
          if success response \<and> truthy d
          then (case parse d of
                  Inl x \<Rightarrow> Inl x
                | Inr v \<Rightarrow> Inr \<lparr>success = True, data = Some v, error = None,
                                statusCode = statusCode response\<rparr>)
          else Inr response
      | None \<Rightarrow> Inr response)"

subsection \<open>EventModule.parseConditions (modules/events.ts)\<close>

text \<open>A JSON value; \<open>undefined\<close> is \<open>None :: json option\<close>. An object is the list of its
  members in the order they were written.\<close>

datatype json =
  JNull | JBool bool | JNum int | JStr string | JArr "json list" | JObj "(string \<times> json) list"

datatype js_error = TypeError

definition truthy :: "json option \<Rightarrow> bool" where
  "truthy v = (case v of
                 None \<Rightarrow> False
               | Some JNull \<Rightarrow> False
               | Some (JBool b) \<Rightarrow> b
               | Some (JNum n) \<Rightarrow> n \<noteq> 0
               | Some (JStr s) \<Rightarrow> s \<noteq> []
               | Some (JArr xs) \<Rightarrow> True
               | Some (JObj kvs) \<Rightarrow> True)"

text \<open>\<open>v.k\<close> for a key \<open>k\<close> that no prototype defines: a \<open>TypeError\<close> on \<open>null\<close>, the
  member of an object (the last one, if the key was written twice), and \<open>undefined\<close> on
  anything else.\<close>

definition js_prop :: "json \<Rightarrow> string \<Rightarrow> js_error + json option" where
  "js_prop v k = (case v of
                 JNull \<Rightarrow> Inl TypeError
               | JObj kvs \<Rightarrow> Inr (map_of (rev kvs) k)
               | _ \<Rightarrow> Inr None)"

definition or_json :: "json option \<Rightarrow> json \<Rightarrow> json" where
  "or_json a b = (if truthy a then (case a of Some v \<Rightarrow> v | None \<Rightarrow> b) else b)"

record EventCondition =
  ec_type :: json
  ec_parameters :: json

text \<open>\<open>conditions.map(condition => ({ type: condition.type || '', parameters:
  condition.parameters || {} }))\<close>\<close>

fun map_conditions :: "json list \<Rightarrow> js_error + EventCondition list" where
  "map_conditions [] = Inr []"
| "map_conditions (condition # rest) =
     (case js_prop condition ''type'' of
        Inl e \<Rightarrow> Inl e
      | Inr t \<Rightarrow>
          (case js_prop condition ''parameters'' of
             Inl e \<Rightarrow> Inl e
           | Inr ps \<Rightarrow>
               (case map_conditions rest of
                  Inl e \<Rightarrow> Inl e
                | Inr cs \<Rightarrow> Inr (\<lparr>ec_type = or_json t (JStr []),
                                   ec_parameters = or_json ps (JObj [])\<rparr> # cs))))"

text \<open>\<open>parseConditions\<close>. \<open>JSON.parse\<close> is the built-in of the language: it is a
  parameter here, \<open>None\<close> where it throws its \<open>SyntaxError\<close>.\<close>

definition parseConditions ::
    "(string \<Rightarrow> json option) \<Rightarrow> json option \<Rightarrow> js_error + EventCondition list" where
  "parseConditions JSON_parse conditions =
     (let after_parse =
            (case conditions of
               Some (JStr s) \<Rightarrow> (case JSON_parse s of
                                   None \<Rightarrow> Inl ([] :: EventCondition list)
                                 | Some v \<Rightarrow> Inr (Some v))
             | _ \<Rightarrow> Inr conditions)
      in case after_parse of
           Inl early \<Rightarrow> Inr early
         | Inr conditions' \<Rightarrow>
             (case conditions' of
                Some (JArr xs) \<Rightarrow> map_conditions xs
              | _ \<Rightarrow> Inr []))"

subsection \<open>EventModule.parseActions, parseEventRule, getEventRule and getEventRules\<close>

record EventAction =
  ea_type :: json
  ea_parameters :: json

text \<open>\<open>actions.map(action => ({ type: action.type || 'notification', parameters:
  action.parameters || {} }))\<close>\<close>

fun map_actions :: "json list \<Rightarrow> js_error + EventAction list" where
  "map_actions [] = Inr []"
| "map_actions (action # rest) =
     (case js_prop action ''type'' of
        Inl e \<Rightarrow> Inl e
      | Inr t \<Rightarrow>
          (case js_prop action ''parameters'' of
             Inl e \<Rightarrow> Inl e
           | Inr ps \<Rightarrow>
               (case map_actions rest of
                  Inl e \<Rightarrow> Inl e
                | Inr as \<Rightarrow> Inr (\<lparr>ea_type = or_json t (JStr ''notification''),
                                   ea_parameters = or_json ps (JObj [])\<rparr> # as))))"

definition parseActions ::
    "(string \<Rightarrow> json option) \<Rightarrow> json option \<Rightarrow> js_error + EventAction list" where
  "parseActions JSON_parse actions =
     (let after_parse =
            (case actions of
               Some (JStr s) \<Rightarrow> (case JSON_parse s of
                                   None \<Rightarrow> Inl ([] :: EventAction list)
                                 | Some v \<Rightarrow> Inr (Some v))
             | _ \<Rightarrow> Inr actions)
      in case after_parse of
           Inl early \<Rightarrow> Inr early
         | Inr actions' \<Rightarrow>
             (case actions' of
                Some (JArr xs) \<Rightarrow> map_actions xs
              | _ \<Rightarrow> Inr []))"

record EventRule =
  er_ruleId :: int
  er_name :: json
  er_enabled :: bool
  er_type :: json
  er_conditions :: "EventCondition list"
  er_actions :: "EventAction list"

text \<open>The built-ins of the language that \<open>parseEventRule\<close> calls are parameters:
  \<open>JSON.parse\<close> (\<open>None\<close> where it throws), \<open>parseInt\<close> (\<open>None\<close> for \<open>NaN\<close>) and the
  conversion to a string that a template literal makes.\<close>

record builtins =
  b_JSON_parse :: "string \<Rightarrow> json option"
  b_parseInt :: "json option \<Rightarrow> int option"
  b_String :: "json option \<Rightarrow> string"

text \<open>The value of \<open>this\<close> in the body of a method: the module when the method is called
  on it (\<open>this.parseEventRule(data)\<close>), \<open>undefined\<close> when the method was taken off its
  object and called as a plain function, as \<open>Array.prototype.map\<close> calls its callback.\<close>

datatype this_value = This_module | This_undefined

definition or_opt :: "json option \<Rightarrow> json option \<Rightarrow> json option" where
  "or_opt a b = (if truthy a then a else b)"

text \<open>
  \<open>parseEventRule\<close>. The fields of the object literal are evaluated in the order written:
  \<open>data.ruleId\<close> is read first (a \<open>TypeError\<close> when \<open>data\<close> is \<open>null\<close> or \<open>undefined\<close>;
  after it every other read of \<open>data\<close> succeeds; \<open>dat\<close> here), and \<open>this.parseConditions\<close> is the first
  use of \<open>this\<close>, a \<open>TypeError\<close> when \<open>this\<close> is \<open>undefined\<close>.
\<close>

definition parseEventRule :: "builtins \<Rightarrow> this_value \<Rightarrow> json option \<Rightarrow> js_error + EventRule" where
  "parseEventRule B this dat =
     (case dat of
        None \<Rightarrow> Inl TypeError
      | Some v \<Rightarrow>
          (case js_prop v ''ruleId'' of
             Inl e \<Rightarrow> Inl e
           | Inr ruleId_field \<Rightarrow>
               (let field = (\<lambda>k. case js_prop v k of Inl e \<Rightarrow> None | Inr x \<Rightarrow> x);
                    ruleId = or_num (b_parseInt B ruleId_field)
                               (or_num (b_parseInt B (field ''rule'')) 0);
                    name = or_json (field ''name'')
                             (JStr (''Rule '' @ b_String B (or_opt ruleId_field (field ''rule''))));
                    enabled = (field ''enabled'' = Some (JStr ''on'')
                               \<or> field ''enabled'' = Some (JBool True));
                    rule_type = or_json (field ''type'') (JStr ''motion'')
                in case this of
                     This_undefined \<Rightarrow> Inl TypeError
                   | This_module \<Rightarrow>
                       (case parseConditions (b_JSON_parse B) (field ''conditions'') of
                          Inl e \<Rightarrow> Inl e
                        | Inr conditions \<Rightarrow>
                            (case parseActions (b_JSON_parse B) (field ''actions'') of
                               Inl e \<Rightarrow> Inl e
                             | Inr actions \<Rightarrow>
                                 Inr \<lparr>er_ruleId = ruleId, er_name = name, er_enabled = enabled,
                                      er_type = rule_type, er_conditions = conditions,
                                      er_actions = actions\<rparr>)))))"

text \<open>
  \<open>getEventRule\<close> and \<open>getEventRules\<close>, from the envelope that \<open>await this.get<any>(...)\<close>
  gave them. The data of what they return is the raw payload (when they return the
  envelope as it is) or the normalized one. \<open>getEventRule\<close> calls
  \<open>this.parseEventRule(response.data)\<close>; \<open>getEventRules\<close> calls
  \<open>rules.map(this.parseEventRule)\<close>, which hands the method to \<open>map\<close> without its object.
\<close>

datatype 'a parsed = Raw json | Parsed 'a

definition untouched :: "json SunapiResponse \<Rightarrow> 'a parsed SunapiResponse" where
  "untouched response =
     \<lparr>success = success response, data = map_option Raw (data response),
      error = error response, statusCode = statusCode response\<rparr>"

definition getEventRule ::
    "builtins \<Rightarrow> json SunapiResponse \<Rightarrow> js_error + EventRule parsed SunapiResponse" where
  "getEventRule B response =
     (if success response \<and> truthy (data response)
      then (case parseEventRule B This_module (data response) of
              Inl e \<Rightarrow> Inl e
            | Inr rule \<Rightarrow> Inr \<lparr>success = True, data = Some (Parsed rule), error = None,
                               statusCode = statusCode response\<rparr>)
      else Inr (untouched response))"

text \<open>\<open>rules.map(f)\<close>, where \<open>f\<close> is \<open>parseEventRule\<close> called with the given \<open>this\<close>; the
  first element that throws ends the \<open>map\<close>.\<close>

fun map_rules :: "builtins \<Rightarrow> this_value \<Rightarrow> json list \<Rightarrow> js_error + EventRule list" where
  "map_rules B this [] = Inr []"
| "map_rules B this (dat # rest) =
     (case parseEventRule B this (Some dat) of
        Inl e \<Rightarrow> Inl e
      | Inr rule \<Rightarrow>
          (case map_rules B this rest of
             Inl e \<Rightarrow> Inl e
           | Inr rules \<Rightarrow> Inr (rule # rules)))"

definition getEventRules ::
    "builtins \<Rightarrow> json SunapiResponse \<Rightarrow> js_error + EventRule list parsed SunapiResponse" where
  "getEventRules B response =
     (if success response \<and> truthy (data response)
      then (let rules = (case data response of
                           Some (JArr xs) \<Rightarrow> xs
                         | Some v \<Rightarrow> [v]
                         | None \<Rightarrow> [])
            in case map_rules B This_undefined rules of
                 Inl e \<Rightarrow> Inl e
               | Inr parsed_rules \<Rightarrow>
                   Inr \<lparr>success = True, data = Some (Parsed parsed_rules), error = None,
                        statusCode = statusCode response\<rparr>)
      else Inr (untouched response))"

text \<open>A rule as a device sends it, with a \<open>conditions\<close> field that is not JSON, and the
  envelopes \<open>get\<close> returns for it alone and for a list that holds it.\<close>

definition door_rule :: json where
  "door_rule = JObj [(''ruleId'', JNum 1), (''name'', JStr ''Door''), (''enabled'', JStr ''on''),
                     (''type'', JStr ''motion''), (''conditions'', JStr ''not json'')]"

definition got :: "json \<Rightarrow> json SunapiResponse" where
  "got payload = \<lparr>success = True, data = Some payload, error = None, statusCode = Some 200\<rparr>"

section \<open>Sunapi, the aggregate client (sunapi.ts)\<close>

text \<open>\<open>class Sunapi extends SunapiClient\<close>: its own session state (\<open>self\<close>) and five
  modules, each a client of its own built from the same configuration.\<close>

record Sunapi =
  self :: client
  system :: client
  video :: client
  ptz :: client
  events :: client
  recording :: client

definition new_Sunapi :: Sunapi where
  "new_Sunapi = \<lparr>self = new_client, system = new_client, video = new_client,
                 ptz = new_client, events = new_client, recording = new_client\<rparr>"

text \<open>\<open>connect\<close>. What \<open>login\<close> throws passes through; the \<open>Error\<close> of the source for an
  envelope without success is not a \<open>SunapiError\<close>.\<close>

definition share :: "client \<Rightarrow> client \<Rightarrow> client" where
  "share src dst = dst\<lparr>authToken := authToken src, sessionId := sessionId src\<rparr>"

definition connect ::
    "('e, 'p) transport \<Rightarrow> SunapiConfig \<Rightarrow> nat \<Rightarrow> Sunapi \<Rightarrow> 'e world
     \<Rightarrow> (('p thrown + unit) \<times> Sunapi \<times> 'e world) option" where
  "connect T cfg n s w =
     (case login T cfg n (self s) w of
        None \<Rightarrow> None
      | Some (Inl e, c1, w1) \<Rightarrow> Some (Inl (SunapiErr e), s\<lparr>self := c1\<rparr>, w1)
      | Some (Inr result, c1, w1) \<Rightarrow>
          if \<not> success result
          then Some (Inl (OtherErr \<lparr>x_code = None, x_response = None,
                                    x_message = ''Failed to connect: '' @
                                      (case error result of None \<Rightarrow> ''undefined'' | Some m \<Rightarrow> m)\<rparr>),
                     s\<lparr>self := c1\<rparr>, w1)
          else if authToken c1 \<noteq> None \<and> truthy_str (sessionId c1)
          then Some (Inr (),
                     s\<lparr>self := c1, system := share c1 (system s), video := share c1 (video s),
                       ptz := share c1 (ptz s), events := share c1 (events s),
                       recording := share c1 (recording s)\<rparr>, w1)
          else Some (Inr (), s\<lparr>self := c1\<rparr>, w1))"

text \<open>\<open>disconnect\<close>: \<open>logout\<close>, then every module is cleared.\<close>

definition cleared :: "client \<Rightarrow> client" where
  "cleared c = c\<lparr>authToken := None, sessionId := None\<rparr>"

definition disconnect ::
    "('e, 'p) transport \<Rightarrow> SunapiConfig \<Rightarrow> nat \<Rightarrow> Sunapi \<Rightarrow> 'e world
     \<Rightarrow> (('p SunapiError + unit) \<times> Sunapi \<times> 'e world) option" where
  "disconnect T cfg n s w =
     (case logout T cfg n (self s) w of
        None \<Rightarrow> None
      | Some (Inl e, c1, w1) \<Rightarrow> Some (Inl e, s\<lparr>self := c1\<rparr>, w1)
      | Some (Inr result, c1, w1) \<Rightarrow>
          Some (Inr (),
                \<lparr>self = c1, system = cleared (system s), video = cleared (video s),
                 ptz = cleared (ptz s), events = cleared (events s),
                 recording = cleared (recording s)\<rparr>, w1))"

section \<open>Environments to run the client in\<close>

text \<open>
  A scripted transport, like a mocked axios instance: the environment is the time and the
  list of outcomes still to come; every call takes the next outcome and five
  milliseconds, and once the script is used up every call times out.
\<close>

definition timed_out :: "'p AxiosError" where
  "timed_out = \<lparr>x_code = Some ''ECONNABORTED'', x_response = None,
                x_message = ''timeout of 30000ms exceeded''\<rparr>"

definition scripted :: "(int \<times> 'p settled list, 'p) transport" where
  "scripted =
     \<lparr>send = (\<lambda>e config. case snd e of
                            [] \<Rightarrow> (Rejected timed_out, (fst e + 5, []))
                          | r # rs \<Rightarrow> (r, (fst e + 5, rs))),
      clock = fst\<rparr>"

text \<open>A device that answers every call, the login too, with 401.\<close>

definition unauthorized :: "unit AxiosError" where
  "unauthorized = \<lparr>x_code = Some ''ERR_BAD_REQUEST'',
                   x_response = Some \<lparr>r_status = 401, r_data = None\<rparr>,
                   x_message = ''Request failed with status code 401''\<rparr>"

definition always_401 :: "(unit, unit) transport" where
  "always_401 = \<lparr>send = (\<lambda>e config. (Rejected unauthorized, ())), clock = (\<lambda>e. 0)\<rparr>"

definition refused :: "unit AxiosError" where
  "refused = \<lparr>x_code = Some ''ECONNREFUSED'', x_response = None,
              x_message = ''connect ECONNREFUSED 192.168.1.100:80''\<rparr>"

definition host_unreachable :: "unit AxiosError" where
  "host_unreachable = \<lparr>x_code = Some ''EHOSTUNREACH'', x_response = None,
                       x_message = ''connect EHOSTUNREACH 192.168.1.100:80''\<rparr>"

definition server_error :: "unit AxiosError" where
  "server_error =
     \<lparr>x_code = Some ''ERR_BAD_RESPONSE'',
      x_response = Some \<lparr>r_status = 500,
                         r_data = Some \<lparr>d_status = None, d_token = None, d_sessionId = None,
                                        d_expires = None, d_message = Some ''Internal error'',
                                        d_userLevel = None, d_maxSessions = None, d_rest = ()\<rparr>\<rparr>,
      x_message = ''Request failed with status code 500''\<rparr>"

definition camera :: SunapiConfig where
  "camera = \<lparr>host = ''192.168.1.100'', port = 80, username = ''admin'', password = ''admin123'',
             protocol = ''http'', timeout = 30000, retries = 3\<rparr>"

text \<open>A login answer \<open>{status: 'OK', token, sessionId, expires}\<close> and one that declines.\<close>

definition login_ok :: "string \<Rightarrow> string \<Rightarrow> int option \<Rightarrow> unit AxiosResponse" where
  "login_ok tok sid lifetime =
     \<lparr>r_status = 200,
      r_data = Some \<lparr>d_status = Some ''OK'', d_token = Some tok, d_sessionId = Some sid,
                     d_expires = lifetime, d_message = None, d_userLevel = None,
                     d_maxSessions = None, d_rest = ()\<rparr>\<rparr>"

definition login_declined :: "unit AxiosResponse" where
  "login_declined =
     \<lparr>r_status = 200,
      r_data = Some \<lparr>d_status = Some ''Fail'', d_token = None, d_sessionId = None,
                     d_expires = None, d_message = Some ''Invalid credentials'',
                     d_userLevel = None, d_maxSessions = None, d_rest = ()\<rparr>\<rparr>"

definition plain_ok :: "unit AxiosResponse" where
  "plain_ok = \<lparr>r_status = 200, r_data = None\<rparr>"

text \<open>A client holding a session that expires at time 1000.\<close>

definition in_session :: client where
  "in_session = \<lparr>authToken = Some \<lparr>token = Some ''tok1'', expiresAt = Date 1000,
                                    t_sessionId = Some ''sid1''\<rparr>,
                 sessionId = Some ''sid1''\<rparr>"

definition at_start :: "'p settled list \<Rightarrow> (int \<times> 'p settled list) world" where
  "at_start script = \<lparr>env = (0, script), sent = []\<rparr>"

section \<open>Notation for one call of the transport\<close>

text \<open>The request as it leaves the request interceptor, how the transport settles it, and
  the world after that one call.\<close>

abbreviation outgoing ::
    "('e, 'p) transport \<Rightarrow> client \<Rightarrow> 'e world \<Rightarrow> request_config \<Rightarrow> request_config" where
  "outgoing T c w config \<equiv> request_interceptor c (clock T (env w)) config"

abbreviation settles ::
    "('e, 'p) transport \<Rightarrow> client \<Rightarrow> 'e world \<Rightarrow> request_config \<Rightarrow> 'p settled" where
  "settles T c w config \<equiv> fst (send T (env w) (outgoing T c w config))"

abbreviation after_call ::
    "('e, 'p) transport \<Rightarrow> client \<Rightarrow> 'e world \<Rightarrow> request_config \<Rightarrow> 'e world" where
  "after_call T c w config \<equiv>
     \<lparr>env = snd (send T (env w) (outgoing T c w config)), sent = sent w @ [outgoing T c w config]\<rparr>"

text \<open>The three parts of what an operation leaves behind, when it has returned.\<close>

definition returned :: "('r \<times> client \<times> 'w) option \<Rightarrow> 'r option" where
  "returned x = map_option fst x"

definition client_after :: "('r \<times> client \<times> 'w) option \<Rightarrow> client option" where
  "client_after x = map_option (\<lambda>t. fst (snd t)) x"

definition world_after :: "('r \<times> client \<times> 'w) option \<Rightarrow> 'w option" where
  "world_after x = map_option (\<lambda>t. snd (snd t)) x"

section \<open>Scripts for the scripted transport\<close>

text \<open>A 401, a login that succeeds and the retried call answered; the same with a
  second 401 for the retried call; and the same with a 401 for the first login request.
  \<open>renewed\<close> is the session state a login leaves.\<close>

definition one_round :: "unit settled list" where
  "one_round = [Rejected unauthorized, Resolved (login_ok ''tok2'' ''sid2'' None), Resolved plain_ok]"

definition two_rounds :: "unit settled list" where
  "two_rounds = [Rejected unauthorized, Resolved (login_ok ''tok2'' ''sid2'' None),
                 Rejected unauthorized, Resolved (login_ok ''tok3'' ''sid3'' None), Resolved plain_ok]"

definition login_refused_round :: "unit settled list" where
  "login_refused_round =
     [Rejected unauthorized, Rejected unauthorized, Resolved (login_ok ''tok2'' ''sid2'' None),
      Resolved (login_ok ''tok3'' ''sid3'' None), Resolved plain_ok]"

definition renewed :: "string \<Rightarrow> string \<Rightarrow> int \<Rightarrow> client" where
  "renewed tok sid t = \<lparr>authToken = Some \<lparr>token = Some tok, expiresAt = Date t, t_sessionId = Some sid\<rparr>,
                        sessionId = Some sid\<rparr>"

section \<open>One call through the interceptors\<close>

lemma later_simps [simp]:
  "later (Date e) now = (now < e)"
  "later InvalidDate now = False"
  by (simp_all add: later_def)

lemma new_Date_in_range [simp]:
  "\<bar>v\<bar> \<le> 8640000000000000 \<Longrightarrow> new_Date v = Date v"
  by (simp add: new_Date_def)

lemma scripted_send [simp]:
  "send scripted (t, r # rs) q = (r, (t + 5, rs))"
  "send scripted (t, []) q = (Rejected timed_out, (t + 5, []))"
  "clock scripted (t, rs) = t"
  by (simp_all add: scripted_def)

lemma axios_request_resolved:
  assumes "settles T c w config = Resolved response"
  shows "axios_request T cfg (Suc n) c w config = Some (Inr response, c, after_call T c w config)"
  using assms by (simp add: Let_def)

lemma axios_request_rejected:
  assumes "settles T c w config = Rejected err"
    and "\<not> (is_401 err \<and> authToken c \<noteq> None)"
  shows "axios_request T cfg (Suc n) c w config =
           Some (Inl (handleError cfg err), c, after_call T c w config)"
  using assms by (auto simp: Let_def)

lemma axios_request_401:
  assumes "settles T c w config = Rejected err" and "is_401 err" and "authToken c \<noteq> None"
  shows "axios_request T cfg (Suc n) c w config =
           (case login T cfg n c (after_call T c w config) of
              None \<Rightarrow> None
            | Some (Inl refreshError, c1, w1) \<Rightarrow>
                Some (Inl (new_AuthenticationError ''Session expired and refresh failed''), c1, w1)
            | Some (Inr ok, c1, w1) \<Rightarrow> axios_request T cfg n c1 w1 (outgoing T c w config))"
  using assms by (simp add: Let_def)

lemma login_resolved:
  assumes "settles T c w (login_config cfg) = Resolved response"
  shows "login T cfg (Suc n) c w =
           (case login_response c (clock T (env (after_call T c w (login_config cfg)))) response of
              Inl t \<Rightarrow> Some (Inl (login_catch cfg t), c, after_call T c w (login_config cfg))
            | Inr (result, c2) \<Rightarrow> Some (Inr result, c2, after_call T c w (login_config cfg)))"
  unfolding login.simps axios_request_resolved [OF assms] by simp

lemma login_rejected:
  assumes "settles T c w (login_config cfg) = Rejected err"
    and "\<not> (is_401 err \<and> authToken c \<noteq> None)"
  shows "login T cfg (Suc n) c w =
           Some (Inl (handleError cfg err), c, after_call T c w (login_config cfg))"
  unfolding login.simps axios_request_rejected [OF assms] by (simp add: login_catch_def)

lemma login_response_token:
  "login_response c now response = Inr (result, c2) \<Longrightarrow> authToken c2 \<noteq> None \<and> success result"
  by (auto simp: login_response_def Let_def split: option.splits if_splits)

text \<open>The log of requests only grows.\<close>

lemma sent_grows:
  "axios_request T cfg n c w config = Some (res, c', w') \<Longrightarrow> \<exists>rest. sent w' = sent w @ rest"
  "login T cfg n c w = Some (lres, c', w') \<Longrightarrow> \<exists>rest. sent w' = sent w @ rest"
proof (induction T cfg n c w config and T cfg n c w arbitrary: res c' w' and lres c' w'
        rule: axios_request_login.induct)
  case (1 T cfg c w config)
  then show ?case by simp
next
  case (2 T cfg n c w config)
  let ?q = "outgoing T c w config"
  let ?w = "after_call T c w config"
  show ?case
  proof (cases "settles T c w config")
    case (Resolved response)
    with "2.prems" show ?thesis by (auto simp: Let_def)
  next
    case (Rejected err)
    show ?thesis
    proof (cases "is_401 err \<and> authToken c \<noteq> None")
      case False
      with Rejected "2.prems" show ?thesis by (auto simp: Let_def)
    next
      case True
      with Rejected "2.prems" obtain lr c1 w1 where
        l: "login T cfg n c ?w = Some (lr, c1, w1)"
        by (auto simp: Let_def split: option.splits)
      from "2.IH"(1)[OF refl refl Rejected True l] obtain r1 where r1: "sent w1 = sent ?w @ r1"
        by blast
      show ?thesis
      proof (cases lr)
        case (Inl e)
        with Rejected True l "2.prems" have "w' = w1" by (auto simp: Let_def)
        with r1 show ?thesis by simp
      next
        case (Inr ok)
        with Rejected True l "2.prems" have
          a: "axios_request T cfg n c1 w1 ?q = Some (res, c', w')" by (auto simp: Let_def)
        from "2.IH"(2)[OF refl refl Rejected True l refl Inr refl a]
        obtain r2 where "sent w' = sent w1 @ r2" by auto
        with r1 show ?thesis by simp
      qed
    qed
  qed
next
  case (3 T cfg n c w)
  from "3.prems" obtain r c1 w1 where
    a: "axios_request T cfg n c w (login_config cfg) = Some (r, c1, w1)" and "w' = w1"
    by (auto simp: login.simps split: option.splits sum.splits prod.splits)
  with "3.IH"[OF a] show ?case by simp
qed

text \<open>The number of calls allowed is only a bound: what a call returns within \<open>n\<close> calls
  of the transport it returns within \<open>n + 1\<close>.\<close>

lemma more_calls:
  "axios_request T cfg n c w config = Some r \<Longrightarrow> axios_request T cfg (Suc n) c w config = Some r"
  "login T cfg n c w = Some lr \<Longrightarrow> login T cfg (Suc n) c w = Some lr"
proof (induction T cfg n c w config and T cfg n c w arbitrary: r and lr
        rule: axios_request_login.induct)
  case (1 T cfg c w config)
  then show ?case by simp
next
  case (2 T cfg n c w config)
  let ?q = "outgoing T c w config"
  let ?w = "after_call T c w config"
  show ?case
  proof (cases "settles T c w config")
    case (Resolved response)
    from "2.prems" show ?thesis
      unfolding axios_request_resolved [OF Resolved] .
  next
    case (Rejected err)
    show ?thesis
    proof (cases "is_401 err \<and> authToken c \<noteq> None")
      case False
      from "2.prems" show ?thesis
        unfolding axios_request_rejected [OF Rejected False] .
    next
      case True
      then have u: "is_401 err" and h: "authToken c \<noteq> None" by simp_all
      note step = axios_request_401 [OF Rejected u h]
      from "2.prems" obtain lr c1 w1 where
        l: "login T cfg n c ?w = Some (lr, c1, w1)"
        unfolding step by (auto split: option.splits)
      from "2.IH"(1) [OF refl refl Rejected True l]
      have l': "login T cfg (Suc n) c ?w = Some (lr, c1, w1)" .
      show ?thesis
      proof (cases lr)
        case (Inl e)
        with "2.prems" l l' show ?thesis unfolding step by simp
      next
        case (Inr ok)
        with "2.prems" l have a: "axios_request T cfg n c1 w1 ?q = Some r"
          unfolding step by simp
        from "2.IH"(2) [OF refl refl Rejected True l refl Inr refl a] Inr l'
        show ?thesis unfolding step by simp
      qed
    qed
  qed
next
  case (3 T cfg n c w)
  from "3.prems" obtain x where a: "axios_request T cfg n c w (login_config cfg) = Some x"
    by (auto simp: login.simps split: option.splits)
  from "3.IH" [OF a] a "3.prems" show ?case
    by (simp add: login.simps)
qed

lemma axios_request_first_sent:
  assumes "axios_request T cfg (Suc n) c w config = Some (res, c', w')"
  shows "\<exists>rest. sent w' = sent w @ outgoing T c w config # rest"
proof (cases "settles T c w config")
  case (Resolved response)
  from assms show ?thesis unfolding axios_request_resolved [OF Resolved] by auto
next
  case (Rejected err)
  show ?thesis
  proof (cases "is_401 err \<and> authToken c \<noteq> None")
    case False
    from assms show ?thesis unfolding axios_request_rejected [OF Rejected False] by auto
  next
    case True
    then have u: "is_401 err" and h: "authToken c \<noteq> None" by simp_all
    note step = axios_request_401 [OF Rejected u h, where cfg = cfg and n = n]
    from assms obtain lr c1 w1 where
      l: "login T cfg n c (after_call T c w config) = Some (lr, c1, w1)"
      unfolding step by (auto split: option.splits)
    from sent_grows(2) [OF l] obtain r1 where
      r1: "sent w1 = sent w @ outgoing T c w config # r1" by auto
    show ?thesis
    proof (cases lr)
      case (Inl e)
      with assms l have "w' = w1" unfolding step by simp
      with r1 show ?thesis by simp
    next
      case (Inr ok)
      with assms l have "axios_request T cfg n c1 w1 (outgoing T c w config) = Some (res, c', w')"
        unfolding step by simp
      from sent_grows(1) [OF this] r1 show ?thesis by auto
    qed
  qed
qed

text \<open>A login whose own request is answered 401 while a token is held: the interceptor
  logs in (a login inside the login), and then issues the login request again.\<close>

lemma login_401:
  assumes "settles T c w (login_config cfg) = Rejected err" and "is_401 err"
    and "authToken c \<noteq> None"
  shows "login T cfg (Suc n) c w =
           (case login T cfg n c (after_call T c w (login_config cfg)) of
              None \<Rightarrow> None
            | Some (Inl refreshError, c1, w1) \<Rightarrow>
                Some (Inl (new_AuthenticationError ''Session expired and refresh failed''), c1, w1)
            | Some (Inr ok, c1, w1) \<Rightarrow>
                (case axios_request T cfg n c1 w1 (outgoing T c w (login_config cfg)) of
                   None \<Rightarrow> None
                 | Some (Inl e, c2, w2) \<Rightarrow> Some (Inl e, c2, w2)
                 | Some (Inr response, c2, w2) \<Rightarrow>
                     (case login_response c2 (clock T (env w2)) response of
                        Inl t \<Rightarrow> Some (Inl (login_catch cfg t), c2, w2)
                      | Inr (result, c3) \<Rightarrow> Some (Inr result, c3, w2))))"
  unfolding login.simps [of T cfg "Suc n"] axios_request_401 [OF assms]
  by (simp add: login_catch_def split: option.splits sum.splits prod.splits)

lemma login_first_sent:
  assumes "login T cfg n c w = Some (lres, c', w')"
  shows "\<exists>rest. sent w' = sent w @ outgoing T c w (login_config cfg) # rest"
proof -
  from assms obtain r c1 w1 where
    a: "axios_request T cfg n c w (login_config cfg) = Some (r, c1, w1)" and w: "w' = w1"
    by (auto simp: login.simps split: option.splits sum.splits prod.splits)
  from a obtain k where "n = Suc k" by (cases n) auto
  with a axios_request_first_sent w show ?thesis by blast
qed

lemma login_success:
  "login T cfg n c w = Some (Inr result, c', w') \<Longrightarrow> success result"
  by (auto simp: login.simps login_response_def Let_def
      split: option.splits sum.splits prod.splits if_splits)

lemma is_401_unauthorized: "is_401 unauthorized"
  by (simp add: is_401_def unauthorized_def)

lemma login_response_ok:
  "login_response c now (login_ok tok sid None) =
     Inr (\<lparr>success = True,
           data = Some \<lparr>l_token = (if tok = [] then Some sid else Some tok), l_sessionId = Some sid,
                        l_userLevel = ''admin'', l_maxSessions = 10\<rparr>,
           error = None, statusCode = None\<rparr>,
          c\<lparr>authToken := Some \<lparr>token = (if tok = [] then Some sid else Some tok),
                                expiresAt = new_Date (now + 3600000), t_sessionId = Some sid\<rparr>,
            sessionId := Some sid\<rparr>)"
  by (simp add: login_response_def login_ok_def or_str_def or_num_def truthy_str_def Let_def)

text \<open>A device that answers 401 to everything keeps a client that holds a token busy
  for ever: no number of calls is enough.\<close>

lemma always_401_never_settles:
  "authToken c \<noteq> None \<Longrightarrow> axios_request always_401 cfg n c w config = None"
proof (induction n arbitrary: w config)
  case 0
  then show ?case by simp
next
  case (Suc n)
  have s: "settles always_401 c w config = Rejected unauthorized"
    by (simp add: always_401_def)
  have "login always_401 cfg n c (after_call always_401 c w config) = None"
    unfolding login.simps Suc.IH [OF Suc.prems] by simp
  then show ?case
    unfolding axios_request_401 [OF s is_401_unauthorized Suc.prems] by simp
qed

section \<open>Session manager\<close>

text \<open>
  C5. \<open>isAuthenticated()\<close> is true exactly when an auth token is present and its expiry is
  strictly after the current time; in particular it is false when there is no token and
  when the expiry is at or before now (and when the expiry is an Invalid Date, which is
  after nothing).
\<close>

theorem isAuthenticated_iff:
  "(isAuthenticated c now \<longleftrightarrow> (\<exists>t e. authToken c = Some t \<and> expiresAt t = Date e \<and> now < e))
   \<and> (authToken c = None \<longrightarrow> \<not> isAuthenticated c now)
   \<and> (\<forall>t e. authToken c = Some t \<and> expiresAt t = Date e \<and> e \<le> now \<longrightarrow> \<not> isAuthenticated c now)
   \<and> (\<forall>t. authToken c = Some t \<and> expiresAt t = InvalidDate \<longrightarrow> \<not> isAuthenticated c now)"
  by (cases "authToken c") (auto simp: isAuthenticated_def later_def split: date.splits)

theorem isAuthenticated_iff_witness:
  "isAuthenticated \<lparr>authToken = Some \<lparr>token = Some ''t'', expiresAt = Date 3600000, t_sessionId = None\<rparr>,
                    sessionId = None\<rparr> 0
   \<and> \<not> isAuthenticated \<lparr>authToken = Some \<lparr>token = Some ''t'', expiresAt = Date 3600000, t_sessionId = None\<rparr>,
                    sessionId = None\<rparr> 3600000
   \<and> \<not> isAuthenticated \<lparr>authToken = Some \<lparr>token = Some ''t'', expiresAt = Date (-1), t_sessionId = None\<rparr>,
                    sessionId = None\<rparr> 0
   \<and> \<not> isAuthenticated \<lparr>authToken = Some \<lparr>token = Some ''t'', expiresAt = InvalidDate, t_sessionId = None\<rparr>,
                    sessionId = None\<rparr> 0
   \<and> \<not> isAuthenticated new_client 0"
  using isAuthenticated_iff [of "\<lparr>authToken = Some \<lparr>token = Some ''t'', expiresAt = Date 3600000, t_sessionId = None\<rparr>,
                    sessionId = None\<rparr>" 0]
        isAuthenticated_iff [of "\<lparr>authToken = Some \<lparr>token = Some ''t'', expiresAt = Date 3600000, t_sessionId = None\<rparr>,
                    sessionId = None\<rparr>" 3600000]
        isAuthenticated_iff [of "\<lparr>authToken = Some \<lparr>token = Some ''t'', expiresAt = Date (-1), t_sessionId = None\<rparr>,
                    sessionId = None\<rparr>" 0]
        isAuthenticated_iff [of "\<lparr>authToken = Some \<lparr>token = Some ''t'', expiresAt = InvalidDate, t_sessionId = None\<rparr>,
                    sessionId = None\<rparr>" 0]
        isAuthenticated_iff [of new_client 0]
  by (simp add: new_client_def)

text \<open>
  C7, as the code has it. When the login call resolves with status \<open>OK\<close>, the stored
  expiry is the time the answer arrived (a time value) plus the declared lifetime, a
  whole number of seconds, or plus 3600 seconds when the server declares none or declares
  0, as long as that time is within the range of \<open>Date\<close>; beyond the range it is an Invalid Date, and the session
  never counts as authenticated. The stored token is the server's token, or the session
  id when the token is missing or empty; the session id is stored as it came. When the
  call resolves with a body of any other status, an \<open>AuthenticationError\<close> is raised with
  the server's message, or \<open>Login failed\<close> when the message is missing or empty; when it
  resolves with a \<open>null\<close> body, the \<open>TypeError\<close> of reading it is classified, a plain
  \<open>SunapiError\<close> without a status code. When the call itself fails and is not a 401 met
  while a token is held, what is raised is the classified error of that failure, an
  \<open>AuthenticationError\<close> only for a 401. A 401 met while a token is held sets off the
  response interceptor: a login inside the login, whose failure is raised as the
  \<open>AuthenticationError\<close> \<open>Session expired and refresh failed\<close>, and after whose success
  the login request goes out again and is treated like the first.
\<close>

theorem login_contract:
  fixes T :: "('e, 'p) transport"
  shows
  "(\<forall>response d.
      settles T c w (login_config cfg) = Resolved response
      \<and> r_data response = Some d \<and> d_status d = Some ''OK''
      \<and> \<bar>clock T (env (after_call T c w (login_config cfg)))\<bar> \<le> 8640000000000000 \<longrightarrow>
      (\<exists>result.
         login T cfg (Suc n) c w =
           Some (Inr result,
                 c\<lparr>authToken :=
                      Some \<lparr>token = (case d_token d of
                                       None \<Rightarrow> d_sessionId d
                                     | Some t \<Rightarrow> if t = [] then d_sessionId d else Some t),
                            expiresAt =
                              (if \<bar>clock T (env (after_call T c w (login_config cfg)))
                                   + (case d_expires d of
                                        None \<Rightarrow> 3600
                                      | Some s \<Rightarrow> if s = 0 then 3600 else s) * 1000\<bar>
                                  \<le> 8640000000000000
                               then Date (clock T (env (after_call T c w (login_config cfg)))
                                          + (case d_expires d of
                                               None \<Rightarrow> 3600
                                             | Some s \<Rightarrow> if s = 0 then 3600 else s) * 1000)
                               else InvalidDate),
                            t_sessionId = d_sessionId d\<rparr>,
                   sessionId := d_sessionId d\<rparr>,
                 after_call T c w (login_config cfg))
         \<and> success result))
   \<and> (\<forall>response d.
      settles T c w (login_config cfg) = Resolved response
      \<and> r_data response = Some d \<and> d_status d \<noteq> Some ''OK'' \<longrightarrow>
      login T cfg (Suc n) c w =
        Some (Inl (new_AuthenticationError
                     (case d_message d of
                        None \<Rightarrow> ''Login failed''
                      | Some m \<Rightarrow> if m = [] then ''Login failed'' else m)),
              c, after_call T c w (login_config cfg)))
   \<and> (\<forall>response.
      settles T c w (login_config cfg) = Resolved response \<and> r_data response = None \<longrightarrow>
      login T cfg (Suc n) c w =
        Some (Inl (new_SunapiError ''Cannot read properties of null (reading 'status')'' None None),
              c, after_call T c w (login_config cfg)))
   \<and> (\<forall>err.
      settles T c w (login_config cfg) = Rejected err
      \<and> \<not> (is_401 err \<and> authToken c \<noteq> None) \<longrightarrow>
      login T cfg (Suc n) c w =
        Some (Inl (handleError cfg err), c, after_call T c w (login_config cfg)))
   \<and> (\<forall>err.
      settles T c w (login_config cfg) = Rejected err \<and> is_401 err \<and> authToken c \<noteq> None \<longrightarrow>
      login T cfg (Suc n) c w =
        (case login T cfg n c (after_call T c w (login_config cfg)) of
           None \<Rightarrow> None
         | Some (Inl refreshError, c1, w1) \<Rightarrow>
             Some (Inl (new_AuthenticationError ''Session expired and refresh failed''), c1, w1)
         | Some (Inr ok, c1, w1) \<Rightarrow>
             (case axios_request T cfg n c1 w1 (outgoing T c w (login_config cfg)) of
                None \<Rightarrow> None
              | Some (Inl e, c2, w2) \<Rightarrow> Some (Inl e, c2, w2)
              | Some (Inr response, c2, w2) \<Rightarrow>
                  (case login_response c2 (clock T (env w2)) response of
                     Inl t \<Rightarrow> Some (Inl (login_catch cfg t), c2, w2)
                   | Inr (result, c3) \<Rightarrow> Some (Inr result, c3, w2)))))"
proof -
  have a: "\<exists>result.
         login T cfg (Suc n) c w =
           Some (Inr result,
                 c\<lparr>authToken :=
                      Some \<lparr>token = (case d_token d of
                                       None \<Rightarrow> d_sessionId d
                                     | Some t \<Rightarrow> if t = [] then d_sessionId d else Some t),
                            expiresAt =
                              (if \<bar>clock T (env (after_call T c w (login_config cfg)))
                                   + (case d_expires d of
                                        None \<Rightarrow> 3600
                                      | Some s \<Rightarrow> if s = 0 then 3600 else s) * 1000\<bar>
                                  \<le> 8640000000000000
                               then Date (clock T (env (after_call T c w (login_config cfg)))
                                          + (case d_expires d of
                                               None \<Rightarrow> 3600
                                             | Some s \<Rightarrow> if s = 0 then 3600 else s) * 1000)
                               else InvalidDate),
                            t_sessionId = d_sessionId d\<rparr>,
                   sessionId := d_sessionId d\<rparr>,
                 after_call T c w (login_config cfg))
         \<and> success result"
    if r: "settles T c w (login_config cfg) = Resolved response"
      and d: "r_data response = Some d" "d_status d = Some ''OK''"
    for response :: "'p AxiosResponse" and d
    unfolding login_resolved [OF r] using d
    by (auto simp: login_response_def or_str_def or_num_def truthy_str_def new_Date_def Let_def
        split: option.splits)
  have b: "login T cfg (Suc n) c w =
        Some (Inl (new_AuthenticationError
                     (case d_message d of
                        None \<Rightarrow> ''Login failed''
                      | Some m \<Rightarrow> if m = [] then ''Login failed'' else m)),
              c, after_call T c w (login_config cfg))"
    if r: "settles T c w (login_config cfg) = Resolved response"
      and d: "r_data response = Some d" "d_status d \<noteq> Some ''OK''"
    for response :: "'p AxiosResponse" and d
    unfolding login_resolved [OF r] using d
    by (auto simp: login_response_def login_catch_def or_str_def truthy_str_def
        split: option.splits)
  have z: "login T cfg (Suc n) c w =
        Some (Inl (new_SunapiError ''Cannot read properties of null (reading 'status')'' None None),
              c, after_call T c w (login_config cfg))"
    if r: "settles T c w (login_config cfg) = Resolved response" and d: "r_data response = None"
    for response :: "'p AxiosResponse"
    unfolding login_resolved [OF r] using d
    by (simp add: login_response_def login_catch_def handleError_def)
  have e: "login T cfg (Suc n) c w =
        Some (Inl (handleError cfg err), c, after_call T c w (login_config cfg))"
    if "settles T c w (login_config cfg) = Rejected err"
      and "\<not> (is_401 err \<and> authToken c \<noteq> None)" for err :: "'p AxiosError"
    using that by (rule login_rejected)
  note f = login_401 [where T = T and c = c and w = w and cfg = cfg and n = n]
  show ?thesis
    using a b z e f by blast
qed

theorem login_contract_witness:
  "client_after (login scripted camera 1 new_client
                   (at_start [Resolved (login_ok ''tok'' ''sid'' (Some 7200))]))
     = Some (renewed ''tok'' ''sid'' (5 + 7200 * 1000))
   \<and> client_after (login scripted camera 1 new_client
                   (at_start [Resolved (login_ok ''tok'' ''sid'' None)]))
     = Some (renewed ''tok'' ''sid'' (5 + 3600 * 1000))
   \<and> map_option (\<lambda>c. map_option expiresAt (authToken c))
        (client_after (login scripted camera 1 new_client
                   (at_start [Resolved (login_ok ''tok'' ''sid'' (Some 8640000000000))])))
     = Some (Some InvalidDate)
   \<and> returned (login scripted camera 1 new_client (at_start [Resolved login_declined]))
     = Some (Inl (new_AuthenticationError ''Invalid credentials''))
   \<and> returned (login scripted camera 1 new_client
                 (at_start [Resolved \<lparr>r_status = 200, r_data = None :: unit body option\<rparr>]))
     = Some (Inl (new_SunapiError ''Cannot read properties of null (reading 'status')'' None None))
   \<and> returned (login scripted camera 1 new_client (at_start [Rejected server_error]))
     = Some (Inl (new_SunapiError ''Internal error'' (Some 500)
                    (case x_response server_error of None \<Rightarrow> None | Some r \<Rightarrow> r_data r)))
   \<and> returned (login scripted camera 2 in_session (at_start [Rejected unauthorized, Rejected refused]))
     = Some (Inl (new_AuthenticationError ''Session expired and refresh failed''))"
proof -
  let ?ok = "login_ok ''tok'' ''sid'' (Some 7200)"
  let ?ok' = "login_ok ''tok'' ''sid'' None"
  let ?far = "login_ok ''tok'' ''sid'' (Some 8640000000000)"
  let ?null = "\<lparr>r_status = 200, r_data = None :: unit body option\<rparr>"
  let ?body = "\<lambda>l. \<lparr>d_status = Some ''OK'', d_token = Some ''tok'', d_sessionId = Some ''sid'',
                     d_expires = l, d_message = None, d_userLevel = None,
                     d_maxSessions = None, d_rest = ()\<rparr>"
  have one: "(1::nat) = Suc 0" and two: "(2::nat) = Suc (Suc 0)" by simp_all
  have s1: "settles scripted new_client (at_start [Resolved ?ok]) (login_config camera) = Resolved ?ok
      \<and> r_data ?ok = Some (?body (Some 7200)) \<and> d_status (?body (Some 7200)) = Some ''OK''
      \<and> \<bar>clock scripted (env (after_call scripted new_client (at_start [Resolved ?ok])
            (login_config camera)))\<bar> \<le> 8640000000000000"
    by (simp add: at_start_def login_ok_def)
  have s2: "settles scripted new_client (at_start [Resolved ?ok']) (login_config camera) = Resolved ?ok'
      \<and> r_data ?ok' = Some (?body None) \<and> d_status (?body None) = Some ''OK''
      \<and> \<bar>clock scripted (env (after_call scripted new_client (at_start [Resolved ?ok'])
            (login_config camera)))\<bar> \<le> 8640000000000000"
    by (simp add: at_start_def login_ok_def)
  have s2': "settles scripted new_client (at_start [Resolved ?far]) (login_config camera) = Resolved ?far
      \<and> r_data ?far = Some (?body (Some 8640000000000))
      \<and> d_status (?body (Some 8640000000000)) = Some ''OK''
      \<and> \<bar>clock scripted (env (after_call scripted new_client (at_start [Resolved ?far])
            (login_config camera)))\<bar> \<le> 8640000000000000"
    by (simp add: at_start_def login_ok_def)
  have s3: "settles scripted new_client (at_start [Resolved login_declined]) (login_config camera)
        = Resolved login_declined
      \<and> r_data login_declined = Some \<lparr>d_status = Some ''Fail'', d_token = None, d_sessionId = None,
                     d_expires = None, d_message = Some ''Invalid credentials'',
                     d_userLevel = None, d_maxSessions = None, d_rest = ()\<rparr>
      \<and> d_status \<lparr>d_status = Some ''Fail'', d_token = None, d_sessionId = None,
                     d_expires = None, d_message = Some ''Invalid credentials'',
                     d_userLevel = None, d_maxSessions = None, d_rest = ()\<rparr> \<noteq> Some ''OK''"
    by (simp add: at_start_def login_declined_def)
  have s3': "settles scripted new_client (at_start [Resolved ?null]) (login_config camera)
        = Resolved ?null \<and> r_data ?null = None"
    by (simp add: at_start_def)
  have s4: "settles scripted new_client (at_start [Rejected server_error]) (login_config camera)
        = Rejected server_error
      \<and> \<not> (is_401 server_error \<and> authToken new_client \<noteq> None)"
    by (simp add: at_start_def new_client_def)
  have s5: "settles scripted in_session (at_start [Rejected unauthorized, Rejected refused])
          (login_config camera) = Rejected unauthorized
      \<and> is_401 unauthorized \<and> authToken in_session \<noteq> None"
    by (simp add: at_start_def is_401_unauthorized in_session_def)
  note L = login_contract [where T = scripted and cfg = camera and n = 0 and c = new_client]
  note L1 = L [where w = "at_start [Resolved ?ok]", THEN conjunct1, rule_format, OF s1]
  note L2 = L [where w = "at_start [Resolved ?ok']", THEN conjunct1, rule_format, OF s2]
  note L2' = L [where w = "at_start [Resolved ?far]", THEN conjunct1, rule_format, OF s2']
  note L3 = L [where w = "at_start [Resolved login_declined]", THEN conjunct2, THEN conjunct1,
      rule_format, OF s3]
  note L3' = L [where w = "at_start [Resolved ?null]", THEN conjunct2, THEN conjunct2,
      THEN conjunct1, rule_format, OF s3']
  note L4 = L [where w = "at_start [Rejected server_error]", THEN conjunct2, THEN conjunct2,
      THEN conjunct2, THEN conjunct1, rule_format, OF s4]
  note L5 = login_contract [where T = scripted and cfg = camera and n = "Suc 0" and c = in_session
      and w = "at_start [Rejected unauthorized, Rejected refused]", THEN conjunct2,
      THEN conjunct2, THEN conjunct2, THEN conjunct2, rule_format, OF s5]
  from L1 have c1: "client_after (login scripted camera (Suc 0) new_client (at_start [Resolved ?ok]))
     = Some (renewed ''tok'' ''sid'' (5 + 7200 * 1000))"
    by (auto simp: client_after_def renewed_def new_client_def at_start_def)
  from L2 have c2: "client_after (login scripted camera (Suc 0) new_client (at_start [Resolved ?ok']))
     = Some (renewed ''tok'' ''sid'' (5 + 3600 * 1000))"
    by (auto simp: client_after_def renewed_def new_client_def at_start_def)
  from L2' have c2': "map_option (\<lambda>c. map_option expiresAt (authToken c))
        (client_after (login scripted camera (Suc 0) new_client (at_start [Resolved ?far])))
     = Some (Some InvalidDate)"
    by (auto simp: client_after_def new_client_def at_start_def)
  from L3 have c3: "returned (login scripted camera (Suc 0) new_client (at_start [Resolved login_declined]))
     = Some (Inl (new_AuthenticationError ''Invalid credentials''))"
    by (simp add: returned_def)
  from L3' have c3': "returned (login scripted camera (Suc 0) new_client (at_start [Resolved ?null]))
     = Some (Inl (new_SunapiError ''Cannot read properties of null (reading 'status')'' None None))"
    by (simp add: returned_def)
  from L4 have c4: "returned (login scripted camera (Suc 0) new_client (at_start [Rejected server_error]))
     = Some (Inl (new_SunapiError ''Internal error'' (Some 500)
                    (case x_response server_error of None \<Rightarrow> None | Some r \<Rightarrow> r_data r)))"
    by (simp add: returned_def handleError_def server_error_def or_str_def truthy_str_def Let_def)
  have inner: "login scripted camera (Suc 0) in_session
                 (after_call scripted in_session (at_start [Rejected unauthorized, Rejected refused])
                    (login_config camera))
               = Some (Inl (handleError camera refused), in_session,
                       after_call scripted in_session
                         (after_call scripted in_session
                            (at_start [Rejected unauthorized, Rejected refused]) (login_config camera))
                         (login_config camera))"
    by (rule login_rejected) (simp_all add: at_start_def is_401_def refused_def)
  from L5 have c5: "returned (login scripted camera (Suc (Suc 0)) in_session
                 (at_start [Rejected unauthorized, Rejected refused]))
     = Some (Inl (new_AuthenticationError ''Session expired and refresh failed''))"
    unfolding inner by (simp add: returned_def)
  show ?thesis
    unfolding one two using c1 c2 c2' c3 c3' c4 c5 by simp
qed

text \<open>
  Where the specification's wording of C7 fails: a declared lifetime of 0 gives an expiry 3600
  seconds after the answer (at time 5), not at the time of the answer; and a login that
  fails because the connection is refused raises a \<open>ConnectionError\<close>, not an
  \<open>AuthenticationError\<close>.
\<close>

theorem login_counterexample:
  "client_after (login scripted camera 1 new_client
                   (at_start [Resolved (login_ok ''tok'' ''sid'' (Some 0))]))
     = Some (renewed ''tok'' ''sid'' (5 + 3600 * 1000))
   \<and> returned (login scripted camera 1 new_client (at_start [Rejected refused]))
     = Some (Inl (new_ConnectionError ''Cannot connect to 192.168.1.100:80''))"
  by (simp add: client_after_def returned_def login.simps at_start_def new_client_def login_ok_def
       login_response_def request_interceptor_def truthy_str_def or_str_def or_num_def refused_def
       handleError_def camera_def show_nat.simps login_catch_def renewed_def is_401_def
       new_Date_def Let_def)

text \<open>
  The two session fields go together: a call through the interceptors changes the client
  only by a successful login, which sets the token. So a client without a token is one no
  call has touched, and what holds of the session id at the start still holds.
\<close>

lemma client_changes_only_by_login:
  "axios_request T cfg n c w config = Some (res, c', w') \<Longrightarrow> c' = c \<or> authToken c' \<noteq> None"
  "login T cfg n c w = Some (lres, c', w') \<Longrightarrow> c' = c \<or> authToken c' \<noteq> None"
proof (induction T cfg n c w config and T cfg n c w arbitrary: res c' w' and lres c' w'
        rule: axios_request_login.induct)
  case (1 T cfg c w config)
  then show ?case by simp
next
  case (2 T cfg n c w config)
  let ?q = "outgoing T c w config"
  let ?w = "after_call T c w config"
  show ?case
  proof (cases "settles T c w config")
    case (Resolved response)
    with "2.prems" show ?thesis by (auto simp: Let_def)
  next
    case (Rejected err)
    show ?thesis
    proof (cases "is_401 err \<and> authToken c \<noteq> None")
      case False
      with Rejected "2.prems" show ?thesis by (auto simp: Let_def)
    next
      case True
      with Rejected "2.prems" obtain lr c1 w1 where
        l: "login T cfg n c ?w = Some (lr, c1, w1)"
        by (auto simp: Let_def split: option.splits)
      from "2.IH"(1)[OF refl refl Rejected True l] True
      have h1: "authToken c1 \<noteq> None" by auto
      show ?thesis
      proof (cases lr)
        case (Inl e)
        with Rejected True l "2.prems" have "c' = c1" by (auto simp: Let_def)
        with h1 show ?thesis by simp
      next
        case (Inr ok)
        with Rejected True l "2.prems" have
          a: "axios_request T cfg n c1 w1 ?q = Some (res, c', w')" by (auto simp: Let_def)
        from "2.IH"(2)[OF refl refl Rejected True l refl Inr refl a] h1
        show ?thesis by auto
      qed
    qed
  qed
next
  case (3 T cfg n c w)
  from "3.prems" obtain r c1 w1 where
    a: "axios_request T cfg n c w (login_config cfg) = Some (r, c1, w1)"
    by (auto simp: login.simps split: option.splits)
  from "3.IH"[OF a] have h: "c1 = c \<or> authToken c1 \<noteq> None" .
  show ?case
  proof (cases r)
    case (Inl e)
    with a "3.prems" have "c' = c1" by (simp add: login.simps)
    with h show ?thesis by simp
  next
    case (Inr response)
    show ?thesis
    proof (cases "login_response c1 (clock T (env w1)) response")
      case (Inl t)
      with Inr a "3.prems" have "c' = c1" by (simp add: login.simps)
      with h show ?thesis by simp
    next
      case (Inr p)
      obtain result c2 where p: "p = (result, c2)" by (cases p)
      with Inr \<open>r = Inr response\<close> a "3.prems" have "c' = c2" by (simp add: login.simps)
      with Inr p login_response_token show ?thesis by blast
    qed
  qed
qed

text \<open>
  C4, as the code has it. On a client whose session id is set only together with its
  token (every client the constructor and the operations produce), an invocation of
  \<open>logout\<close> that returns reports success and leaves token and session id cleared, whether
  the notification resolved or threw. It returns at once when no token is held, it
  returns whenever the notification call settles, and the notification call settles at
  its first answer unless that answer is a 401.
\<close>

theorem logout_clears:
  fixes T :: "('e, 'p) transport"
  assumes inv: "authToken c = None \<longrightarrow> sessionId c = None"
  shows
  "(\<forall>res c' w'. logout T cfg n c w = Some (res, c', w') \<longrightarrow>
      res = Inr \<lparr>success = True, data = None, error = None, statusCode = None\<rparr>
      \<and> authToken c' = None \<and> sessionId c' = None)
   \<and> (authToken c = None \<longrightarrow>
        logout T cfg n c w =
          Some (Inr \<lparr>success = True, data = None, error = None, statusCode = None\<rparr>, c, w))
   \<and> (\<forall>res c1 w1. authToken c \<noteq> None
        \<and> axios_request T cfg n c w logout_config = Some (res, c1, w1) \<longrightarrow>
        logout T cfg n c w =
          Some (Inr \<lparr>success = True, data = None, error = None, statusCode = None\<rparr>,
                c1\<lparr>authToken := None, sessionId := None\<rparr>, w1))
   \<and> (\<forall>response. authToken c \<noteq> None \<and> settles T c w logout_config = Resolved response \<longrightarrow>
        logout T cfg (Suc n) c w =
          Some (Inr \<lparr>success = True, data = None, error = None, statusCode = None\<rparr>,
                c\<lparr>authToken := None, sessionId := None\<rparr>, after_call T c w logout_config))
   \<and> (\<forall>err. authToken c \<noteq> None \<and> settles T c w logout_config = Rejected err \<and> \<not> is_401 err \<longrightarrow>
        logout T cfg (Suc n) c w =
          Some (Inr \<lparr>success = True, data = None, error = None, statusCode = None\<rparr>,
                c\<lparr>authToken := None, sessionId := None\<rparr>, after_call T c w logout_config))"
proof -
  have a: "\<forall>res c' w'. logout T cfg n c w = Some (res, c', w') \<longrightarrow>
      res = Inr \<lparr>success = True, data = None, error = None, statusCode = None\<rparr>
      \<and> authToken c' = None \<and> sessionId c' = None"
    using inv by (auto simp: logout_def split: option.splits sum.splits prod.splits)
  have b: "authToken c = None \<longrightarrow>
        logout T cfg n c w =
          Some (Inr \<lparr>success = True, data = None, error = None, statusCode = None\<rparr>, c, w)"
    by (simp add: logout_def)
  have c: "\<forall>res c1 w1. authToken c \<noteq> None
        \<and> axios_request T cfg n c w logout_config = Some (res, c1, w1) \<longrightarrow>
        logout T cfg n c w =
          Some (Inr \<lparr>success = True, data = None, error = None, statusCode = None\<rparr>,
                c1\<lparr>authToken := None, sessionId := None\<rparr>, w1)"
    by (auto simp: logout_def split: option.splits sum.splits prod.splits)
  have d: "\<forall>response. authToken c \<noteq> None \<and> settles T c w logout_config = Resolved response \<longrightarrow>
        logout T cfg (Suc n) c w =
          Some (Inr \<lparr>success = True, data = None, error = None, statusCode = None\<rparr>,
                c\<lparr>authToken := None, sessionId := None\<rparr>, after_call T c w logout_config)"
    by (auto simp: logout_def Let_def split: option.splits)
  have e: "\<forall>err. authToken c \<noteq> None \<and> settles T c w logout_config = Rejected err \<and> \<not> is_401 err \<longrightarrow>
        logout T cfg (Suc n) c w =
          Some (Inr \<lparr>success = True, data = None, error = None, statusCode = None\<rparr>,
                c\<lparr>authToken := None, sessionId := None\<rparr>, after_call T c w logout_config)"
  proof (intro allI impI)
    fix err
    assume r: "authToken c \<noteq> None \<and> settles T c w logout_config = Rejected err \<and> \<not> is_401 err"
    then have "axios_request T cfg (Suc n) c w logout_config =
                 Some (Inl (handleError cfg err), c, after_call T c w logout_config)"
      by (intro axios_request_rejected) auto
    with r show "logout T cfg (Suc n) c w =
          Some (Inr \<lparr>success = True, data = None, error = None, statusCode = None\<rparr>,
                c\<lparr>authToken := None, sessionId := None\<rparr>, after_call T c w logout_config)"
      by (auto simp: logout_def)
  qed
  show ?thesis
    by (intro conjI a b c d e)
qed

theorem logout_clears_witness:
  "authToken in_session \<noteq> None
   \<and> settles scripted in_session (at_start [Rejected refused]) logout_config = Rejected refused
   \<and> \<not> is_401 refused
   \<and> returned (logout scripted camera 1 in_session (at_start [Rejected refused]))
       = Some (Inr \<lparr>success = True, data = None, error = None, statusCode = None\<rparr>)
   \<and> client_after (logout scripted camera 1 in_session (at_start [Rejected refused]))
       = Some new_client"
proof -
  let ?w = "at_start [Rejected refused]"
  have inv: "authToken in_session = None \<longrightarrow> sessionId in_session = None"
    by (simp add: in_session_def)
  have pre: "authToken in_session \<noteq> None
      \<and> settles scripted in_session ?w logout_config = Rejected refused
      \<and> \<not> is_401 refused"
    by (simp add: in_session_def at_start_def is_401_def refused_def)
  have "\<forall>err. authToken in_session \<noteq> None
        \<and> settles scripted in_session ?w logout_config = Rejected err \<and> \<not> is_401 err \<longrightarrow>
        logout scripted camera (Suc 0) in_session ?w =
          Some (Inr \<lparr>success = True, data = None, error = None, statusCode = None\<rparr>,
                in_session\<lparr>authToken := None, sessionId := None\<rparr>,
                after_call scripted in_session ?w logout_config)"
    using logout_clears [OF inv, where T = scripted and w = ?w and cfg = camera and n = 0]
    by blast
  from this [rule_format, OF pre] pre show ?thesis
    by (simp add: returned_def client_after_def in_session_def new_client_def)
qed

text \<open>
  Where the specification's wording of C4 fails: it promises a report of success for every
  invocation. Against a device that answers every call with 401, a client that holds a
  token never gets its \<open>logout\<close> back: the notification is answered 401, the response
  interceptor logs in, the login is answered 401, the interceptor logs in again, and so
  on. No number of calls is enough for \<open>logout\<close> to return.
\<close>

theorem logout_counterexample:
  "authToken in_session \<noteq> None
   \<and> \<not> (\<exists>n. logout always_401 camera n in_session \<lparr>env = (), sent = []\<rparr> \<noteq> None)"
proof -
  have held: "authToken in_session \<noteq> None" by (simp add: in_session_def)
  then obtain t where t: "authToken in_session = Some t" by blast
  have "logout always_401 camera n in_session \<lparr>env = (), sent = []\<rparr> = None" for n
    by (simp add: logout_def t always_401_never_settles [OF held])
  with held show ?thesis by simp
qed

lemma session_fields_paired:
  assumes "authToken c = None \<longrightarrow> sessionId c = None"
  shows "axios_request T cfg n c w config = Some (res, c', w') \<Longrightarrow>
           authToken c' = None \<longrightarrow> sessionId c' = None"
    and "login T cfg n c w = Some (lres, c', w') \<Longrightarrow>
           authToken c' = None \<longrightarrow> sessionId c' = None"
  using assms client_changes_only_by_login(1) [of T cfg n c w config res c' w']
    client_changes_only_by_login(2) [of T cfg n c w lres c' w']
  by auto

section \<open>Request pipeline\<close>

text \<open>
  C8, as the code has it. The request interceptor writes the bearer credential exactly
  when a token is held and its expiry is strictly after the current time (an Invalid Date
  is after nothing), and the session
  header exactly when a session id is held and is not the empty string; otherwise it
  leaves the header as it found it. Every call of the instance hands the transport the
  configuration as the interceptor left it, before anything else is sent.
\<close>

theorem request_interceptor_headers:
  fixes T :: "('e, 'p) transport"
  shows
  "Authorization (request_interceptor c now config) =
     (case authToken c of
        None \<Rightarrow> Authorization config
      | Some t \<Rightarrow>
          (case expiresAt t of
             Date e \<Rightarrow>
               if now < e
               then Some (''Bearer '' @ (case token t of None \<Rightarrow> ''undefined'' | Some s \<Rightarrow> s))
               else Authorization config
           | InvalidDate \<Rightarrow> Authorization config))
   \<and> X_Session_ID (request_interceptor c now config) =
     (case sessionId c of
        None \<Rightarrow> X_Session_ID config
      | Some s \<Rightarrow> if s = [] then X_Session_ID config else Some s)
   \<and> (\<forall>res c' w'. axios_request T cfg (Suc n) c w config = Some (res, c', w') \<longrightarrow>
        (\<exists>rest. sent w' = sent w @ request_interceptor c (clock T (env w)) config # rest))"
proof -
  have "\<forall>res c' w'. axios_request T cfg (Suc n) c w config = Some (res, c', w') \<longrightarrow>
        (\<exists>rest. sent w' = sent w @ request_interceptor c (clock T (env w)) config # rest)"
    using axios_request_first_sent by blast
  then show ?thesis
    by (auto simp: request_interceptor_def bearer_def truthy_str_def later_def Let_def
        split: option.splits date.splits)
qed

theorem request_interceptor_headers_witness:
  "axios_request scripted camera 1 in_session (at_start [Resolved plain_ok]) ping_config
     = Some (Inr plain_ok, in_session,
             \<lparr>env = (5, []),
              sent = [ping_config\<lparr>Authorization := Some ''Bearer tok1'',
                                  X_Session_ID := Some ''sid1''\<rparr>]\<rparr>)"
proof -
  let ?w = "at_start [Resolved plain_ok]"
  have run: "axios_request scripted camera (Suc 0) in_session ?w ping_config
               = Some (Inr plain_ok, in_session, after_call scripted in_session ?w ping_config)"
    by (rule axios_request_resolved) (simp add: at_start_def)
  note H = request_interceptor_headers [where T = scripted and cfg = camera and n = 0
      and c = in_session and w = ?w and config = ping_config and now = 0]
  from H run have "\<exists>rest. sent (after_call scripted in_session ?w ping_config)
                     = sent ?w @ request_interceptor in_session (clock scripted (env ?w)) ping_config # rest"
    by blast
  moreover from H have
    "Authorization (request_interceptor in_session 0 ping_config) = Some ''Bearer tok1''
     \<and> X_Session_ID (request_interceptor in_session 0 ping_config) = Some ''sid1''"
    by (simp add: in_session_def)
  ultimately show ?thesis
    using run
    by (simp add: at_start_def request_interceptor_def in_session_def truthy_str_def bearer_def)
qed

text \<open>
  Where the specification's wording of C8 fails: a token is held, but it expired at time
  1000 and it is now 2000, and the notification that \<open>logout\<close> sends goes out
  without any credential.
\<close>

theorem request_interceptor_counterexample:
  "authToken in_session \<noteq> None
   \<and> map_option (\<lambda>w. map Authorization (sent w))
        (world_after (logout scripted camera 1 in_session
                        \<lparr>env = (2000, [Resolved plain_ok]), sent = []\<rparr>))
       = Some [None]"
  by (simp add: world_after_def logout_def in_session_def request_interceptor_def truthy_str_def
        logout_config_def)

text \<open>
  C1, as the code has it. A 401 while a token is held triggers one call of \<open>login\<close>.
  When the request that \<open>login\<close> sends is answered with anything but a 401: if the login
  fails, the caller gets the \<open>AuthenticationError\<close> \<open>Session expired and refresh failed\<close>
  and nothing is retried; if it succeeds, the failed request goes out once more, and when
  that is answered with anything but a 401, its outcome is what the caller gets, after
  exactly one login request and one retry. A 401 is handled the same way wherever it is
  met while a token is held: when the retried request is answered 401, another login
  follows and after it another retry; when the login request itself is answered 401, a
  second login request follows at once, and only after that one succeeded is the first
  login request sent again and, if it succeeds, the original request retried. Nothing
  bounds the number of logins and retries for one call.
\<close>

theorem relogin_round:
  fixes T :: "('e, 'p) transport"
  assumes held: "authToken c \<noteq> None"
    and first: "settles T c w config = Rejected err"
    and unauth: "is_401 err"
  shows
  "(\<forall>x. settles T c (after_call T c w config) (login_config cfg) = Rejected x \<and> \<not> is_401 x \<longrightarrow>
      axios_request T cfg (Suc (Suc n)) c w config =
        Some (Inl (new_AuthenticationError ''Session expired and refresh failed''), c,
              after_call T c (after_call T c w config) (login_config cfg)))
   \<and> (\<forall>response t.
        settles T c (after_call T c w config) (login_config cfg) = Resolved response
        \<and> login_response c (clock T (env (after_call T c (after_call T c w config) (login_config cfg))))
            response = Inl t \<longrightarrow>
        axios_request T cfg (Suc (Suc n)) c w config =
          Some (Inl (new_AuthenticationError ''Session expired and refresh failed''), c,
                after_call T c (after_call T c w config) (login_config cfg)))
   \<and> (\<forall>response result c2.
        settles T c (after_call T c w config) (login_config cfg) = Resolved response
        \<and> login_response c (clock T (env (after_call T c (after_call T c w config) (login_config cfg))))
            response = Inr (result, c2) \<longrightarrow>
        (\<forall>again.
           settles T c2 (after_call T c (after_call T c w config) (login_config cfg))
             (outgoing T c w config) = Resolved again \<longrightarrow>
           axios_request T cfg (Suc (Suc n)) c w config =
             Some (Inr again, c2,
                   after_call T c2 (after_call T c (after_call T c w config) (login_config cfg))
                     (outgoing T c w config)))
        \<and> (\<forall>x.
           settles T c2 (after_call T c (after_call T c w config) (login_config cfg))
             (outgoing T c w config) = Rejected x \<and> \<not> is_401 x \<longrightarrow>
           axios_request T cfg (Suc (Suc n)) c w config =
             Some (Inl (handleError cfg x), c2,
                   after_call T c2 (after_call T c (after_call T c w config) (login_config cfg))
                     (outgoing T c w config)))
        \<and> (\<forall>x.
           settles T c2 (after_call T c (after_call T c w config) (login_config cfg))
             (outgoing T c w config) = Rejected x \<and> is_401 x \<longrightarrow>
           axios_request T cfg (Suc (Suc n)) c w config =
             (case login T cfg n c2
                     (after_call T c2 (after_call T c (after_call T c w config) (login_config cfg))
                        (outgoing T c w config)) of
                None \<Rightarrow> None
              | Some (Inl refreshError, c3, w3) \<Rightarrow>
                  Some (Inl (new_AuthenticationError ''Session expired and refresh failed''), c3, w3)
              | Some (Inr ok, c3, w3) \<Rightarrow>
                  axios_request T cfg n c3 w3
                    (outgoing T c2 (after_call T c (after_call T c w config) (login_config cfg))
                       (outgoing T c w config)))))
   \<and> (\<forall>x.
        settles T c (after_call T c w config) (login_config cfg) = Rejected x \<and> is_401 x \<longrightarrow>
        axios_request T cfg (Suc (Suc n)) c w config =
          (case login T cfg n c (after_call T c (after_call T c w config) (login_config cfg)) of
             None \<Rightarrow> None
           | Some (Inl refreshError, c3, w3) \<Rightarrow>
               Some (Inl (new_AuthenticationError ''Session expired and refresh failed''), c3, w3)
           | Some (Inr ok, c3, w3) \<Rightarrow>
               (case axios_request T cfg n c3 w3
                       (outgoing T c (after_call T c w config) (login_config cfg)) of
                  None \<Rightarrow> None
                | Some (Inl e, c4, w4) \<Rightarrow>
                    Some (Inl (new_AuthenticationError ''Session expired and refresh failed''), c4, w4)
                | Some (Inr response, c4, w4) \<Rightarrow>
                    (case login_response c4 (clock T (env w4)) response of
                       Inl t \<Rightarrow>
                         Some (Inl (new_AuthenticationError ''Session expired and refresh failed''),
                               c4, w4)
                     | Inr (result, c5) \<Rightarrow>
                         axios_request T cfg (Suc n) c5 w4 (outgoing T c w config))))
        \<and> (\<forall>res c' w'. axios_request T cfg (Suc (Suc n)) c w config = Some (res, c', w') \<longrightarrow>
             (\<exists>rest. sent w' =
                sent w @ outgoing T c w config
                  # outgoing T c (after_call T c w config) (login_config cfg)
                  # outgoing T c (after_call T c (after_call T c w config) (login_config cfg))
                      (login_config cfg)
                  # rest)))"
proof -
  let ?w1 = "after_call T c w config"
  let ?w2 = "after_call T c ?w1 (login_config cfg)"
  let ?q = "outgoing T c w config"
  have step: "axios_request T cfg (Suc (Suc n)) c w config =
           (case login T cfg (Suc n) c ?w1 of
              None \<Rightarrow> None
            | Some (Inl refreshError, c1, w1) \<Rightarrow>
                Some (Inl (new_AuthenticationError ''Session expired and refresh failed''), c1, w1)
            | Some (Inr ok, c1, w1) \<Rightarrow> axios_request T cfg (Suc n) c1 w1 ?q)"
    by (rule axios_request_401 [OF first unauth held])
  have a: "axios_request T cfg (Suc (Suc n)) c w config =
        Some (Inl (new_AuthenticationError ''Session expired and refresh failed''), c, ?w2)"
    if "settles T c ?w1 (login_config cfg) = Rejected x" and "\<not> is_401 x" for x
    unfolding step using login_rejected [OF that(1), where n = n] that(2) by simp
  have b: "axios_request T cfg (Suc (Suc n)) c w config =
        Some (Inl (new_AuthenticationError ''Session expired and refresh failed''), c, ?w2)"
    if "settles T c ?w1 (login_config cfg) = Resolved response"
      and "login_response c (clock T (env ?w2)) response = Inl t" for response t
    unfolding step using login_resolved [OF that(1), where n = n] that(2) by simp
  have ok: "axios_request T cfg (Suc (Suc n)) c w config = axios_request T cfg (Suc n) c2 ?w2 ?q"
    if "settles T c ?w1 (login_config cfg) = Resolved response"
      and "login_response c (clock T (env ?w2)) response = Inr (result, c2)" for response result c2
    unfolding step using login_resolved [OF that(1), where n = n] that(2) by simp
  have c1: "axios_request T cfg (Suc (Suc n)) c w config = Some (Inr again, c2, after_call T c2 ?w2 ?q)"
    if "settles T c ?w1 (login_config cfg) = Resolved response"
      and "login_response c (clock T (env ?w2)) response = Inr (result, c2)"
      and "settles T c2 ?w2 ?q = Resolved again" for response result c2 again
    unfolding ok [OF that(1,2)] by (rule axios_request_resolved [OF that(3)])
  have c2: "axios_request T cfg (Suc (Suc n)) c w config =
              Some (Inl (handleError cfg x), c2, after_call T c2 ?w2 ?q)"
    if "settles T c ?w1 (login_config cfg) = Resolved response"
      and "login_response c (clock T (env ?w2)) response = Inr (result, c2)"
      and "settles T c2 ?w2 ?q = Rejected x" and "\<not> is_401 x" for response result c2 x
    unfolding ok [OF that(1,2)] using axios_request_rejected [OF that(3), where n = n and cfg = cfg] that(4) by simp
  have c3: "axios_request T cfg (Suc (Suc n)) c w config =
             (case login T cfg n c2 (after_call T c2 ?w2 ?q) of
                None \<Rightarrow> None
              | Some (Inl refreshError, c3, w3) \<Rightarrow>
                  Some (Inl (new_AuthenticationError ''Session expired and refresh failed''), c3, w3)
              | Some (Inr ok, c3, w3) \<Rightarrow> axios_request T cfg n c3 w3 (outgoing T c2 ?w2 ?q))"
    if "settles T c ?w1 (login_config cfg) = Resolved response"
      and "login_response c (clock T (env ?w2)) response = Inr (result, c2)"
      and "settles T c2 ?w2 ?q = Rejected x" and "is_401 x" for response result c2 x
    unfolding ok [OF that(1,2)]
    using axios_request_401 [OF that(3,4), where n = n and cfg = cfg] login_response_token [OF that(2)] by simp
  have d1: "axios_request T cfg (Suc (Suc n)) c w config =
          (case login T cfg n c ?w2 of
             None \<Rightarrow> None
           | Some (Inl refreshError, c3, w3) \<Rightarrow>
               Some (Inl (new_AuthenticationError ''Session expired and refresh failed''), c3, w3)
           | Some (Inr ok, c3, w3) \<Rightarrow>
               (case axios_request T cfg n c3 w3 (outgoing T c ?w1 (login_config cfg)) of
                  None \<Rightarrow> None
                | Some (Inl e, c4, w4) \<Rightarrow>
                    Some (Inl (new_AuthenticationError ''Session expired and refresh failed''), c4, w4)
                | Some (Inr response, c4, w4) \<Rightarrow>
                    (case login_response c4 (clock T (env w4)) response of
                       Inl t \<Rightarrow>
                         Some (Inl (new_AuthenticationError ''Session expired and refresh failed''),
                               c4, w4)
                     | Inr (result, c5) \<Rightarrow> axios_request T cfg (Suc n) c5 w4 ?q)))"
    if "settles T c ?w1 (login_config cfg) = Rejected x" and "is_401 x" for x
    unfolding step login_401 [OF that held, where n = n]
    by (simp split: option.splits sum.splits prod.splits)
  have d2: "\<exists>rest. sent w' = sent w @ ?q # outgoing T c ?w1 (login_config cfg)
                # outgoing T c ?w2 (login_config cfg) # rest"
    if x: "settles T c ?w1 (login_config cfg) = Rejected x" "is_401 x"
      and run: "axios_request T cfg (Suc (Suc n)) c w config = Some (res, c', w')" for x res c' w'
  proof -
    from run obtain lr c1 w1 where
      l: "login T cfg (Suc n) c ?w1 = Some (lr, c1, w1)"
      unfolding step by (auto split: option.splits)
    have "\<exists>r. sent w' = sent w1 @ r"
    proof (cases lr)
      case (Inl e)
      with run l have "w' = w1" unfolding step by simp
      then show ?thesis by simp
    next
      case (Inr ok)
      with run l have "axios_request T cfg (Suc n) c1 w1 ?q = Some (res, c', w')"
        unfolding step by simp
      then show ?thesis by (rule sent_grows(1))
    qed
    then obtain r where r: "sent w' = sent w1 @ r" ..
    from l obtain lr2 c3 w3 where
      l2: "login T cfg n c ?w2 = Some (lr2, c3, w3)"
      unfolding login_401 [OF x held, where n = n] by (auto split: option.splits)
    have "\<exists>r'. sent w1 = sent w3 @ r'"
    proof (cases lr2)
      case (Inl e)
      with l l2 have "w1 = w3" unfolding login_401 [OF x held, where n = n] by simp
      then show ?thesis by simp
    next
      case (Inr ok)
      with l l2 obtain r4 c4 w4 where
        a4: "axios_request T cfg n c3 w3 (outgoing T c ?w1 (login_config cfg)) = Some (r4, c4, w4)"
        and "w1 = w4"
        unfolding login_401 [OF x held, where n = n]
        by (auto split: option.splits sum.splits prod.splits)
      with sent_grows(1) [OF a4] show ?thesis by simp
    qed
    then obtain r' where r': "sent w1 = sent w3 @ r'" ..
    from login_first_sent [OF l2] obtain r'' where
      "sent w3 = sent ?w2 @ outgoing T c ?w2 (login_config cfg) # r''" ..
    with r r' show ?thesis by simp
  qed
  show ?thesis
    apply (intro conjI)
    subgoal using a by blast
    subgoal using b by blast
    subgoal using c1 c2 c3 by blast
    subgoal using d1 d2 by blast
    done
qed

theorem relogin_round_witness:
  "authToken in_session \<noteq> None
   \<and> settles scripted in_session (at_start one_round) ping_config = Rejected unauthorized
   \<and> is_401 unauthorized
   \<and> returned (axios_request scripted camera 2 in_session (at_start one_round) ping_config)
       = Some (Inr plain_ok)
   \<and> client_after (axios_request scripted camera 2 in_session (at_start one_round) ping_config)
       = Some (renewed ''tok2'' ''sid2'' 3600010)
   \<and> map_option (\<lambda>w. map (\<lambda>q. (c_method q, c_url q, Authorization q)) (sent w))
        (world_after (axios_request scripted camera 2 in_session (at_start one_round) ping_config))
       = Some [(GET, ''/stw-cgi/system.cgi?msubmenu=deviceinfo&action=view'', Some ''Bearer tok1''),
               (POST, ''/stw-cgi/system.cgi'', Some ''Bearer tok1''),
               (GET, ''/stw-cgi/system.cgi?msubmenu=deviceinfo&action=view'', Some ''Bearer tok2'')]"
proof -
  let ?w0 = "at_start one_round"
  let ?w1 = "after_call scripted in_session ?w0 ping_config"
  let ?w2 = "after_call scripted in_session ?w1 (login_config camera)"
  let ?q = "outgoing scripted in_session ?w0 ping_config"
  let ?c2 = "renewed ''tok2'' ''sid2'' 3600010"
  have held: "authToken in_session \<noteq> None"
    by (simp add: in_session_def)
  have first: "settles scripted in_session ?w0 ping_config = Rejected unauthorized"
    by (simp add: at_start_def one_round_def)
  have relog: "settles scripted in_session ?w1 (login_config camera)
                 = Resolved (login_ok ''tok2'' ''sid2'' None)"
    by (simp add: at_start_def one_round_def)
  have stored: "login_response in_session (clock scripted (env ?w2)) (login_ok ''tok2'' ''sid2'' None)
                 = Inr (\<lparr>success = True,
                         data = Some \<lparr>l_token = Some ''tok2'', l_sessionId = Some ''sid2'',
                                      l_userLevel = ''admin'', l_maxSessions = 10\<rparr>,
                         error = None, statusCode = None\<rparr>, ?c2)"
    by (simp add: login_response_ok at_start_def one_round_def in_session_def renewed_def)
  have again: "settles scripted ?c2 ?w2 ?q = Resolved plain_ok"
    by (simp add: at_start_def one_round_def)
  from relogin_round [OF held first is_401_unauthorized, where cfg = camera and n = 0]
    relog stored again
  have run: "axios_request scripted camera (Suc (Suc 0)) in_session ?w0 ping_config
               = Some (Inr plain_ok, ?c2, after_call scripted ?c2 ?w2 ?q)"
    by blast
  have two: "(2::nat) = Suc (Suc 0)" by simp
  show ?thesis
    unfolding two run
    using held first is_401_unauthorized
    by (simp add: returned_def client_after_def world_after_def at_start_def one_round_def
          request_interceptor_def in_session_def renewed_def ping_config_def login_config_def
          truthy_str_def bearer_def)
qed

text \<open>
  Where the specification's wording of C1 fails: the retried request is answered 401 again, and
  the client does log in a second time and does retry a second time. Five requests go
  out for the one call (the call, a login, the retry, a second login, a second retry),
  and the caller gets the answer to the second retry, not the second 401.
\<close>

theorem relogin_counterexample:
  "returned (axios_request scripted camera 5 in_session (at_start two_rounds) ping_config)
     = Some (Inr plain_ok)
   \<and> map_option (\<lambda>w. map (\<lambda>q. (c_method q, c_url q)) (sent w))
        (world_after (axios_request scripted camera 5 in_session (at_start two_rounds) ping_config))
     = Some [(GET, ''/stw-cgi/system.cgi?msubmenu=deviceinfo&action=view''),
             (POST, ''/stw-cgi/system.cgi''),
             (GET, ''/stw-cgi/system.cgi?msubmenu=deviceinfo&action=view''),
             (POST, ''/stw-cgi/system.cgi''),
             (GET, ''/stw-cgi/system.cgi?msubmenu=deviceinfo&action=view'')]"
proof -
  have five: "(5::nat) = Suc (Suc (Suc (Suc (Suc 0))))" by simp
  show ?thesis
    unfolding five
    by (simp add: returned_def world_after_def at_start_def two_rounds_def Let_def login.simps
          is_401_unauthorized login_response_ok in_session_def request_interceptor_def
          truthy_str_def bearer_def ping_config_def login_config_def)
qed

text \<open>The first login request answered 401: three login requests go out (the first, the
  one the interceptor makes for it, the first again) before the one retry.\<close>

lemma relogin_login_refused_example:
  "returned (axios_request scripted camera 5 in_session (at_start login_refused_round) ping_config)
     = Some (Inr plain_ok)
   \<and> map_option (\<lambda>w. map (\<lambda>q. (c_method q, c_url q)) (sent w))
        (world_after (axios_request scripted camera 5 in_session (at_start login_refused_round)
                        ping_config))
     = Some [(GET, ''/stw-cgi/system.cgi?msubmenu=deviceinfo&action=view''),
             (POST, ''/stw-cgi/system.cgi''),
             (POST, ''/stw-cgi/system.cgi''),
             (POST, ''/stw-cgi/system.cgi''),
             (GET, ''/stw-cgi/system.cgi?msubmenu=deviceinfo&action=view'')]"
proof -
  have five: "(5::nat) = Suc (Suc (Suc (Suc (Suc 0))))" by simp
  show ?thesis
    unfolding five
    by (simp add: returned_def world_after_def at_start_def login_refused_round_def Let_def
          login.simps is_401_unauthorized login_response_ok in_session_def
          request_interceptor_def truthy_str_def bearer_def ping_config_def login_config_def)
qed

text \<open>
  C3. When \<open>ensureAuthenticated\<close> has succeeded, \<open>request\<close> throws nothing: whatever error
  the dispatched call ends with comes back inside the envelope, as \<open>success: false\<close> with
  that error's message and status code; whenever \<open>request\<close> returns, it returns an
  envelope. In particular a failure of the transport that is not a 401 met while a token
  is held comes back at once, with the message and status code the classifier gives it.
\<close>

theorem request_failure_in_envelope:
  fixes T :: "('e, 'p) transport"
  assumes auth: "ensureAuthenticated T cfg n c w = Some (Inr u, c1, w1)"
  shows
  "(\<forall>e c2 w2.
      axios_request T cfg n c1 w1 (request_config_of m endpoint dat ps) = Some (Inl e, c2, w2) \<longrightarrow>
      request T cfg n c w m endpoint dat ps =
        Some (Inr \<lparr>success = False, data = None, error = Some (e_message e),
                   statusCode = e_statusCode e\<rparr>, c2, w2))
   \<and> (\<forall>res c2 w2.
      request T cfg n c w m endpoint dat ps = Some (res, c2, w2) \<longrightarrow> (\<exists>envelope. res = Inr envelope))
   \<and> (\<forall>err.
      0 < n \<and> settles T c1 w1 (request_config_of m endpoint dat ps) = Rejected err
      \<and> \<not> (is_401 err \<and> authToken c1 \<noteq> None) \<longrightarrow>
      request T cfg n c w m endpoint dat ps =
        Some (Inr \<lparr>success = False, data = None, error = Some (e_message (handleError cfg err)),
                   statusCode = e_statusCode (handleError cfg err)\<rparr>,
              c1, after_call T c1 w1 (request_config_of m endpoint dat ps)))"
proof (intro conjI allI impI)
  fix e c2 w2
  assume "axios_request T cfg n c1 w1 (request_config_of m endpoint dat ps) = Some (Inl e, c2, w2)"
  with auth show "request T cfg n c w m endpoint dat ps =
        Some (Inr \<lparr>success = False, data = None, error = Some (e_message e),
                   statusCode = e_statusCode e\<rparr>, c2, w2)"
    by (simp add: request_def request_catch_def)
next
  fix res c2 w2
  assume "request T cfg n c w m endpoint dat ps = Some (res, c2, w2)"
  with auth show "\<exists>envelope. res = Inr envelope"
    by (auto simp: request_def split: option.splits sum.splits)
next
  fix err
  assume a: "0 < n \<and> settles T c1 w1 (request_config_of m endpoint dat ps) = Rejected err
      \<and> \<not> (is_401 err \<and> authToken c1 \<noteq> None)"
  then obtain k where k: "n = Suc k" by (cases n) auto
  from a have "axios_request T cfg (Suc k) c1 w1 (request_config_of m endpoint dat ps) =
                 Some (Inl (handleError cfg err), c1,
                       after_call T c1 w1 (request_config_of m endpoint dat ps))"
    by (intro axios_request_rejected) auto
  with auth k show "request T cfg n c w m endpoint dat ps =
        Some (Inr \<lparr>success = False, data = None, error = Some (e_message (handleError cfg err)),
                   statusCode = e_statusCode (handleError cfg err)\<rparr>,
              c1, after_call T c1 w1 (request_config_of m endpoint dat ps))"
    by (simp add: request_def request_catch_def)
qed

theorem request_failure_in_envelope_witness:
  "ensureAuthenticated scripted camera 1 in_session (at_start [Rejected server_error])
     = Some (Inr (), in_session, at_start [Rejected server_error])
   \<and> returned (request scripted camera 1 in_session (at_start [Rejected server_error])
                 GET ''/stw-cgi/video.cgi'' None None)
     = Some (Inr \<lparr>success = False, data = None, error = Some ''Internal error'',
                 statusCode = Some 500\<rparr>)"
proof -
  let ?w = "at_start [Rejected server_error]"
  let ?q = "request_config_of GET ''/stw-cgi/video.cgi'' None None"
  have auth: "ensureAuthenticated scripted camera 1 in_session ?w = Some (Inr (), in_session, ?w)"
    by (simp add: ensureAuthenticated_def isAuthenticated_def in_session_def at_start_def)
  have rej: "0 < (1::nat) \<and> settles scripted in_session ?w ?q = Rejected server_error
      \<and> \<not> (is_401 server_error \<and> authToken in_session \<noteq> None)"
    by (simp add: at_start_def is_401_def server_error_def)
  from request_failure_in_envelope [OF auth, where m = GET and endpoint = "''/stw-cgi/video.cgi''"
      and dat = None and ps = None] rej
  have "request scripted camera 1 in_session ?w GET ''/stw-cgi/video.cgi'' None None =
        Some (Inr \<lparr>success = False, data = None,
                   error = Some (e_message (handleError camera server_error)),
                   statusCode = e_statusCode (handleError camera server_error)\<rparr>,
              in_session, after_call scripted in_session ?w ?q)"
    by blast
  with auth show ?thesis
    by (simp add: returned_def handleError_def server_error_def or_str_def truthy_str_def
          new_SunapiError_def Let_def)
qed

text \<open>
  C2, as the code has it. An envelope that \<open>request\<close> returns (so one that \<open>get\<close>, \<open>post\<close>,
  \<open>put\<close> or \<open>delete\<close> returns) with \<open>success\<close> false has no data and has an error; a
  reading operation of a feature module keeps that, since it hands on the envelope it got
  or builds one with \<open>success\<close> true; \<open>login\<close> and \<open>logout\<close> return only envelopes with
  \<open>success\<close> true. The envelope of a failed \<open>ping\<close> is the exception: it has the error
  \<open>Device unreachable\<close> and it has data, \<open>{alive: false}\<close>.
\<close>

theorem envelope_contract:
  fixes T :: "('e, 'p) transport"
  shows
  "(\<forall>r c' w'. request T cfg n c w m endpoint dat ps = Some (Inr r, c', w') \<and> \<not> success r \<longrightarrow>
      data r = None \<and> error r \<noteq> None)
   \<and> (\<forall>r c' w'. get T cfg n c w endpoint ps = Some (Inr r, c', w') \<and> \<not> success r \<longrightarrow>
      data r = None \<and> error r \<noteq> None)
   \<and> (\<forall>r c' w'. post T cfg n c w endpoint dat ps = Some (Inr r, c', w') \<and> \<not> success r \<longrightarrow>
      data r = None \<and> error r \<noteq> None)
   \<and> (\<forall>r c' w'. put T cfg n c w endpoint dat ps = Some (Inr r, c', w') \<and> \<not> success r \<longrightarrow>
      data r = None \<and> error r \<noteq> None)
   \<and> (\<forall>r c' w'. delete T cfg n c w endpoint ps = Some (Inr r, c', w') \<and> \<not> success r \<longrightarrow>
      data r = None \<and> error r \<noteq> None)
   \<and> (\<forall>response r. parsed_response truthy_data parse response = Inr r
        \<and> (\<not> success response \<longrightarrow> data response = None \<and> error response \<noteq> None)
        \<and> \<not> success r \<longrightarrow>
      data r = None \<and> error r \<noteq> None)
   \<and> (\<forall>r c' w'. login T cfg n c w = Some (Inr r, c', w') \<longrightarrow> success r)
   \<and> (\<forall>r c' w'. logout T cfg n c w = Some (Inr r, c', w') \<longrightarrow> success r)
   \<and> (\<forall>r c' w'. ping T cfg n c w = Some (Inr r, c', w') \<and> \<not> success r \<longrightarrow>
      data r = Some \<lparr>alive = False\<rparr> \<and> error r = Some ''Device unreachable'')"
proof -
  have req: "\<forall>r c' w'. request T cfg n c w m endpoint dat ps = Some (Inr r, c', w') \<and> \<not> success r \<longrightarrow>
      data r = None \<and> error r \<noteq> None" for m endpoint dat ps
    by (auto simp: request_def request_catch_def split: option.splits sum.splits prod.splits)
  have par: "\<forall>response r. parsed_response truthy_data parse response = Inr r
        \<and> (\<not> success response \<longrightarrow> data response = None \<and> error response \<noteq> None)
        \<and> \<not> success r \<longrightarrow>
      data r = None \<and> error r \<noteq> None"
    by (auto simp: parsed_response_def split: option.splits sum.splits if_splits)
  have lin: "\<forall>r c' w'. login T cfg n c w = Some (Inr r, c', w') \<longrightarrow> success r"
    using login_success by blast
  have lout: "\<forall>r c' w'. logout T cfg n c w = Some (Inr r, c', w') \<longrightarrow> success r"
    by (auto simp: logout_def split: option.splits sum.splits prod.splits)
  have png: "\<forall>r c' w'. ping T cfg n c w = Some (Inr r, c', w') \<and> \<not> success r \<longrightarrow>
      data r = Some \<lparr>alive = False\<rparr> \<and> error r = Some ''Device unreachable''"
    by (auto simp: ping_def split: option.splits sum.splits prod.splits)
  show ?thesis
    unfolding get_def post_def put_def delete_def
    by (intro conjI req par lin lout png)
qed

theorem envelope_contract_witness:
  "request scripted camera 1 in_session (at_start [Rejected refused]) POST ''/stw-cgi/ptz.cgi'' None None
     = Some (Inr \<lparr>success = False, data = None,
                  error = Some ''Cannot connect to 192.168.1.100:80'', statusCode = Some 0\<rparr>,
             in_session,
             after_call scripted in_session (at_start [Rejected refused])
               (request_config_of POST ''/stw-cgi/ptz.cgi'' None None))
   \<and> data \<lparr>success = False, data = None :: unit body option,
           error = Some ''Cannot connect to 192.168.1.100:80'', statusCode = Some 0\<rparr> = None
   \<and> error \<lparr>success = False, data = None :: unit body option,
            error = Some ''Cannot connect to 192.168.1.100:80'', statusCode = Some 0\<rparr> \<noteq> None"
proof -
  let ?w = "at_start [Rejected refused]"
  let ?r = "\<lparr>success = False, data = None :: unit body option,
             error = Some ''Cannot connect to 192.168.1.100:80'', statusCode = Some 0\<rparr>"
  have run: "request scripted camera 1 in_session ?w POST ''/stw-cgi/ptz.cgi'' None None
          = Some (Inr ?r, in_session,
                  after_call scripted in_session ?w (request_config_of POST ''/stw-cgi/ptz.cgi'' None None))"
    by (simp add: request_def ensureAuthenticated_def isAuthenticated_def in_session_def
          at_start_def is_401_def refused_def request_catch_def handleError_def
          new_ConnectionError_def camera_def show_nat.simps Let_def)
  have "\<forall>r c' w'. request scripted camera 1 in_session ?w POST ''/stw-cgi/ptz.cgi'' None None
            = Some (Inr r, c', w') \<and> \<not> success r \<longrightarrow> data r = None \<and> error r \<noteq> None"
    using envelope_contract [of scripted camera 1 in_session ?w POST "''/stw-cgi/ptz.cgi''" None None]
    by (rule conjunct1)
  from this [rule_format, OF conjI, OF run] run show ?thesis
    by simp
qed

text \<open>
  Where the specification's wording of C2 fails: the device cannot be reached, \<open>ping\<close> returns
  an envelope with \<open>success\<close> false, and the envelope carries data.
\<close>

theorem envelope_counterexample:
  "returned (ping scripted camera 1 new_client (at_start [Rejected refused]))
     = Some (Inr \<lparr>success = False, data = Some \<lparr>alive = False\<rparr>,
                 error = Some ''Device unreachable'', statusCode = None\<rparr>)"
  by (simp add: returned_def ping_def at_start_def new_client_def is_401_def refused_def)

section \<open>Error classifier\<close>

text \<open>
  C6, as the code has it. \<open>handleError\<close> gives every failure exactly one of four
  outcomes, trying the cases in order (in axios an error that carries a connection code
  carries no response). A failure with the code \<open>ECONNREFUSED\<close> or \<open>ENOTFOUND\<close>
  (connection refused, host name not resolved) is a \<open>ConnectionError\<close> with status code
  0. Otherwise a response with status 401 is an \<open>AuthenticationError\<close> with status code
  401, and a response with any other status is a plain \<open>SunapiError\<close> with that status
  and with the message field of the response body, or the transport's message when that
  field is missing or empty. Every other failure without a response (a timeout, an
  unreachable host, any other code) is a plain \<open>SunapiError\<close> with the transport's
  message and no status code.
\<close>

theorem handleError_classifies:
  fixes err :: "'p AxiosError"
  shows
  "(x_code err = Some ''ECONNREFUSED'' \<or> x_code err = Some ''ENOTFOUND'' \<longrightarrow>
      e_class (handleError cfg err) = ConnectionErrorC \<and> e_statusCode (handleError cfg err) = Some 0)
   \<and> (x_code err \<noteq> Some ''ECONNREFUSED'' \<and> x_code err \<noteq> Some ''ENOTFOUND'' \<longrightarrow>
        (\<forall>resp. x_response err = Some resp \<and> r_status resp = 401 \<longrightarrow>
            e_class (handleError cfg err) = AuthenticationErrorC
            \<and> e_statusCode (handleError cfg err) = Some 401)
        \<and> (\<forall>resp. x_response err = Some resp \<and> r_status resp \<noteq> 401 \<longrightarrow>
            e_class (handleError cfg err) = SunapiErrorC
            \<and> e_statusCode (handleError cfg err) = Some (r_status resp)
            \<and> e_message (handleError cfg err) =
                (case r_data resp of
                   None \<Rightarrow> x_message err
                 | Some d \<Rightarrow> (case d_message d of
                               None \<Rightarrow> x_message err
                             | Some m \<Rightarrow> if m = [] then x_message err else m)))
        \<and> (x_response err = None \<longrightarrow>
            e_class (handleError cfg err) = SunapiErrorC
            \<and> e_statusCode (handleError cfg err) = None
            \<and> e_message (handleError cfg err) = x_message err))"
  by (auto simp: handleError_def new_ConnectionError_def new_AuthenticationError_def
        new_SunapiError_def or_str_def truthy_str_def Let_def split: option.splits)

theorem handleError_classifies_witness:
  "e_class (handleError camera refused) = ConnectionErrorC
   \<and> e_statusCode (handleError camera refused) = Some 0
   \<and> e_class (handleError camera unauthorized) = AuthenticationErrorC
   \<and> e_statusCode (handleError camera unauthorized) = Some 401
   \<and> e_class (handleError camera server_error) = SunapiErrorC
   \<and> e_statusCode (handleError camera server_error) = Some 500
   \<and> e_message (handleError camera server_error) = ''Internal error''
   \<and> e_class (handleError camera (timed_out :: unit AxiosError)) = SunapiErrorC
   \<and> e_statusCode (handleError camera (timed_out :: unit AxiosError)) = None"
  using handleError_classifies [of refused camera]
        handleError_classifies [of unauthorized camera]
        handleError_classifies [of server_error camera]
        handleError_classifies [of "timed_out :: unit AxiosError" camera]
  by (simp add: refused_def unauthorized_def server_error_def timed_out_def)

text \<open>
  Where the specification's wording of C6 fails: the host cannot be reached
  (\<open>EHOSTUNREACH\<close>, no response), and the outcome is none of the three it lists: not a
  \<open>ConnectionError\<close> with status code 0, but a plain \<open>SunapiError\<close> with no status code
  at all.
\<close>

theorem handleError_counterexample:
  "x_response host_unreachable = None
   \<and> e_class (handleError camera host_unreachable) = SunapiErrorC
   \<and> e_statusCode (handleError camera host_unreachable) = None
   \<and> e_message (handleError camera host_unreachable) = ''connect EHOSTUNREACH 192.168.1.100:80''"
  by (simp add: handleError_def host_unreachable_def new_SunapiError_def)

section \<open>Response normalizer\<close>

text \<open>\<open>parseConditions\<close> itself degrades: a string that \<open>JSON.parse\<close> rejects gives the
  empty sequence, and nothing is raised. This holds whatever \<open>JSON.parse\<close> is.\<close>

lemma parseConditions_malformed:
  "JSON_parse s = None \<Longrightarrow> parseConditions JSON_parse (Some (JStr s)) = Inr []"
  by (simp add: parseConditions_def)

text \<open>Through \<open>getEventRule\<close> the rule reaches the caller with its conditions empty.\<close>

lemma getEventRule_malformed:
  assumes "b_JSON_parse B ''not json'' = None"
  shows "getEventRule B (got door_rule) =
           Inr \<lparr>success = True,
                data = Some (Parsed \<lparr>er_ruleId = or_num (b_parseInt B (Some (JNum 1)))
                                                  (or_num (b_parseInt B None) 0),
                                     er_name = JStr ''Door'', er_enabled = True,
                                     er_type = JStr ''motion'', er_conditions = [],
                                     er_actions = []\<rparr>),
                error = None, statusCode = Some 200\<rparr>"
  using assms
  by (simp add: getEventRule_def got_def door_rule_def truthy_def parseEventRule_def js_prop_def
        or_json_def parseConditions_malformed parseActions_def Let_def)

text \<open>Called without its object, \<open>parseEventRule\<close> throws whatever it is given, and so does a
  \<open>map\<close> of it over any list that is not empty.\<close>

lemma parseEventRule_detached:
  "parseEventRule B This_undefined dat = Inl TypeError"
  by (cases dat; simp add: parseEventRule_def Let_def js_prop_def split: json.splits)

lemma map_rules_detached:
  "rules \<noteq> [] \<Longrightarrow> map_rules B This_undefined rules = Inl TypeError"
  by (cases rules) (simp_all add: parseEventRule_detached)

lemma getEventRules_throws:
  assumes "success response" and "truthy (data response)" and "data response \<noteq> Some (JArr [])"
  shows "getEventRules B response = Inl TypeError"
proof -
  from assms(2) obtain v where v: "data response = Some v"
    by (cases "data response") (simp_all add: truthy_def)
  with assms(3) have "(case data response of Some (JArr xs) \<Rightarrow> xs | Some v \<Rightarrow> [v] | None \<Rightarrow> []) \<noteq> []"
    by (cases v) simp_all
  from map_rules_detached [OF this] assms(1,2) show ?thesis
    by (simp add: getEventRules_def Let_def)
qed

text \<open>
  C9. The specification has every event rule whose \<open>conditions\<close> field is a string that
  is not JSON normalized to a rule with no conditions, with no error raised or passed on
  to the caller. \<open>parseConditions\<close> does that and \<open>getEventRule\<close> delivers it (the lemmas
  above), but \<open>getEventRules\<close> does not: for the list that holds such a rule the caller
  gets a \<open>TypeError\<close> instead of the rules, whatever the built-ins do.
\<close>

theorem getEventRules_malformed:
  "getEventRules B (got (JArr [door_rule])) = Inl TypeError"
  by (simp add: getEventRules_def got_def truthy_def parseEventRule_detached Let_def)

section \<open>The aggregate client\<close>

text \<open>
  C10. After a \<open>connect\<close> that succeeded and left the aggregate client with an auth
  token and a session id (a string that is not empty), each of the five modules holds
  the aggregate's \<open>authToken\<close> and \<open>sessionId\<close>.
\<close>

theorem connect_shares_session:
  fixes T :: "('e, 'p) transport"
  assumes "connect T cfg n s w = Some (Inr u, s', w')"
    and "authToken (self s') \<noteq> None"
    and "sessionId (self s') = Some sid" and "sid \<noteq> []"
  shows "authToken (system s') = authToken (self s') \<and> sessionId (system s') = sessionId (self s')
       \<and> authToken (video s') = authToken (self s') \<and> sessionId (video s') = sessionId (self s')
       \<and> authToken (ptz s') = authToken (self s') \<and> sessionId (ptz s') = sessionId (self s')
       \<and> authToken (events s') = authToken (self s') \<and> sessionId (events s') = sessionId (self s')
       \<and> authToken (recording s') = authToken (self s') \<and> sessionId (recording s') = sessionId (self s')"
  using assms
  by (auto simp: connect_def share_def truthy_str_def
      split: option.splits sum.splits prod.splits if_splits)

theorem connect_shares_session_witness:
  "connect scripted camera 1 new_Sunapi (at_start [Resolved (login_ok ''tok'' ''sid'' None)])
     = Some (Inr (),
             \<lparr>self = renewed ''tok'' ''sid'' 3600005, system = renewed ''tok'' ''sid'' 3600005,
              video = renewed ''tok'' ''sid'' 3600005, ptz = renewed ''tok'' ''sid'' 3600005,
              events = renewed ''tok'' ''sid'' 3600005, recording = renewed ''tok'' ''sid'' 3600005\<rparr>,
             after_call scripted new_client (at_start [Resolved (login_ok ''tok'' ''sid'' None)])
               (login_config camera))"
proof -
  let ?w = "at_start [Resolved (login_ok ''tok'' ''sid'' None)]"
  let ?c = "renewed ''tok'' ''sid'' 3600005"
  have s: "settles scripted new_client ?w (login_config camera) = Resolved (login_ok ''tok'' ''sid'' None)"
    by (simp add: at_start_def)
  have l: "login scripted camera (Suc 0) new_client ?w
             = Some (Inr \<lparr>success = True,
                          data = Some \<lparr>l_token = Some ''tok'', l_sessionId = Some ''sid'',
                                       l_userLevel = ''admin'', l_maxSessions = 10\<rparr>,
                          error = None, statusCode = None\<rparr>,
                     ?c, after_call scripted new_client ?w (login_config camera))"
    unfolding login_resolved [OF s]
    by (simp add: login_response_ok new_client_def renewed_def at_start_def)
  have one: "(1::nat) = Suc 0" by simp
  obtain s' where
    run: "connect scripted camera 1 new_Sunapi ?w
            = Some (Inr (), s', after_call scripted new_client ?w (login_config camera))"
    and self: "self s' = ?c"
    unfolding one
    by (simp add: connect_def new_Sunapi_def l renewed_def truthy_str_def)
  from self have tok: "authToken (self s') \<noteq> None" and sid: "sessionId (self s') = Some ''sid''"
    by (simp_all add: renewed_def)
  from connect_shares_session [OF run tok sid] self
  have "s' = \<lparr>self = ?c, system = ?c, video = ?c, ptz = ?c, events = ?c, recording = ?c\<rparr>"
    by (cases s') (auto simp: renewed_def)
  with run show ?thesis by simp
qed


end
